theory Spec2Isabelle
  imports Main
begin

section \<open>Numbers and strings of the host language\<close>

text \<open>
  The numbers the session manager handles are breakpoint ids, line numbers, frame
  indices, addresses and byte sizes. \<open>jsnum\<close> holds the integral doubles and the three
  values that are not finite; \<open>Fin i\<close> is the double holding the integer \<open>i\<close>. The sum
  below is the sum of doubles as long as the result stays a safe integer (below \<open>2^53\<close> in
  absolute value). Doubles with a fractional part are not represented.
\<close>

datatype jsnum = NaN | NegInf | PosInf | Fin int

text \<open>\<^verbatim>\<open>a == b\<close> on two numbers: \<^verbatim>\<open>NaN\<close> equals nothing, itself included.\<close>

fun js_eq :: "jsnum \<Rightarrow> jsnum \<Rightarrow> bool" where
  "js_eq NaN b = False"
| "js_eq a NaN = False"
| "js_eq a b = (a = b)"

text \<open>\<^verbatim>\<open>a <= b\<close> on two numbers: false as soon as one side is \<^verbatim>\<open>NaN\<close>.\<close>

fun js_le :: "jsnum \<Rightarrow> jsnum \<Rightarrow> bool" where
  "js_le NaN b = False"
| "js_le a NaN = False"
| "js_le NegInf b = True"
| "js_le a PosInf = True"
| "js_le (Fin a) (Fin b) = (a \<le> b)"
| "js_le PosInf b = False"
| "js_le a NegInf = False"

text \<open>\<^verbatim>\<open>a + b\<close>.\<close>

fun js_add :: "jsnum \<Rightarrow> jsnum \<Rightarrow> jsnum" where
  "js_add NaN b = NaN"
| "js_add a NaN = NaN"
| "js_add NegInf PosInf = NaN"
| "js_add PosInf NegInf = NaN"
| "js_add NegInf b = NegInf"
| "js_add a NegInf = NegInf"
| "js_add PosInf b = PosInf"
| "js_add a PosInf = PosInf"
| "js_add (Fin a) (Fin b) = Fin (a + b)"

text \<open>
  \<^verbatim>\<open>Math.max\<close> of two numbers and of an argument list (\<^verbatim>\<open>Math.max.apply(null, xs)\<close>):
  \<^verbatim>\<open>NaN\<close> when an argument is \<^verbatim>\<open>NaN\<close>, and \<^verbatim>\<open>-Infinity\<close> when there is no argument.
\<close>

fun js_max2 :: "jsnum \<Rightarrow> jsnum \<Rightarrow> jsnum" where
  "js_max2 NaN b = NaN"
| "js_max2 a NaN = NaN"
| "js_max2 a b = (if js_le a b then b else a)"

definition Math_max :: "jsnum list \<Rightarrow> jsnum" where
  "Math_max xs = foldl js_max2 NegInf xs"

text \<open>Truthiness of a number and of a string, as \<^verbatim>\<open>||\<close> tests them.\<close>

fun truthy_num :: "jsnum \<Rightarrow> bool" where
  "truthy_num NaN = False"
| "truthy_num (Fin i) = (i \<noteq> 0)"
| "truthy_num a = True"

definition truthy_str :: "string \<Rightarrow> bool" where
  "truthy_str s = (s \<noteq> [])"

text \<open>
  \<^verbatim>\<open>xs[n]\<close> for an array and a number: the element when \<open>n\<close> is an index of the array,
  \<^verbatim>\<open>undefined\<close> (here \<open>None\<close>) otherwise.
\<close>

fun js_index :: "'a list \<Rightarrow> jsnum \<Rightarrow> 'a option" where
  "js_index xs (Fin i) = (if 0 \<le> i \<and> nat i < length xs then Some (xs ! nat i) else None)"
| "js_index xs a = None"

text \<open>\<^verbatim>\<open>s.split(sep)\<close> for a separator of one character: never the empty array.\<close>

fun split_js :: "char \<Rightarrow> string \<Rightarrow> string list" where
  "split_js sep [] = [[]]"
| "split_js sep (c # cs) =
     (if c = sep then [] # split_js sep cs
      else (case split_js sep cs of
              [] \<Rightarrow> [[c]]
            | p # ps \<Rightarrow> (c # p) # ps))"

section \<open>Failures, the gateway and the outside world\<close>

text \<open>
  A command fails with a \<^verbatim>\<open>TypeError\<close> of the language (a property read on
  \<^verbatim>\<open>undefined\<close>), because a request to the protocol gateway was rejected, or because a
  file could not be read.
\<close>

datatype js_error = TypeError | GatewayFailure string | FileError string

text \<open>\<^verbatim>\<open>Protocol.Debugger.Location\<close> and the location \<^verbatim>\<open>setBreakpoint\<close> is sent, whose
  fields are \<^verbatim>\<open>undefined\<close> when no module resolved the source line.\<close>

record Location =
  scriptId :: string
  lineNumber :: jsnum
  columnNumber :: "jsnum option"

record BreakpointRequest =
  rq_scriptId :: "string option"
  rq_lineNumber :: "jsnum option"
  rq_columnNumber :: "jsnum option"

datatype debugger_call =
    D_stepOver
  | D_stepInto
  | D_stepOut
  | D_resume
  | D_setBreakpoint BreakpointRequest
  | D_removeBreakpoint string
  | D_evaluateOnCallFrame string string

datatype runtime_call =
    R_getProperties "string option"
  | R_other string

datatype gw_call = Debugger debugger_call | Runtime runtime_call

text \<open>\<^verbatim>\<open>Protocol.Runtime.PropertyDescriptor\<close>: its name and the object id of its value,
  when it has a value and the value has an object id.\<close>

record RemoteObject =
  objectId :: "string option"
  description :: string

record PropertyDescriptor =
  pd_name :: string
  pd_value :: "RemoteObject option"

text \<open>
  The gateway is outside the program. Its reply to a request is a function of the
  requests issued so far and of the request; \<open>Inl\<close> is a rejected promise. The reply to
  \<^verbatim>\<open>evaluateOnCallFrame\<close> is \<^verbatim>\<open>result.value\<close>, which may be missing.
\<close>

record gateway =
  on_stepOver :: "gw_call list \<Rightarrow> js_error + unit"
  on_stepInto :: "gw_call list \<Rightarrow> js_error + unit"
  on_stepOut :: "gw_call list \<Rightarrow> js_error + unit"
  on_resume :: "gw_call list \<Rightarrow> js_error + unit"
  on_setBreakpoint :: "gw_call list \<Rightarrow> BreakpointRequest \<Rightarrow> js_error + string"
  on_removeBreakpoint :: "gw_call list \<Rightarrow> string \<Rightarrow> js_error + unit"
  on_evaluateOnCallFrame :: "gw_call list \<Rightarrow> string \<Rightarrow> string \<Rightarrow> js_error + jsnum list option"
  on_getProperties :: "gw_call list \<Rightarrow> string option \<Rightarrow> js_error + PropertyDescriptor list"

text \<open>What a command leaves behind outside the manager: the gateway requests it
  issued, the console lines it wrote and the events it sent to the debug adapter.\<close>

datatype console_line = Warn string | Log string

datatype adapter_event = StoppedEvent string nat

record world =
  calls :: "gw_call list"
  console :: "console_line list"
  events :: "adapter_event list"

definition request :: "gw_call \<Rightarrow> world \<Rightarrow> world" where
  "request c w = w\<lparr>calls := calls w @ [c]\<rparr>"

definition console_warn :: "string \<Rightarrow> world \<Rightarrow> world" where
  "console_warn s w = w\<lparr>console := console w @ [Warn s]\<rparr>"

definition console_log :: "string \<Rightarrow> world \<Rightarrow> world" where
  "console_log s w = w\<lparr>console := console w @ [Log s]\<rparr>"

definition sendEvent :: "adapter_event \<Rightarrow> world \<Rightarrow> world" where
  "sendEvent e w = w\<lparr>events := events w @ [e]\<rparr>"

section \<open>Loaded modules: \<^verbatim>\<open>DebugSession\<close>\<close>

text \<open>
  \<^verbatim>\<open>WebAssemblyFile\<close> and the debug information behind it are not part of the sources
  at hand, so a module carries its script id and, as functions, the answers of its
  methods: \<^verbatim>\<open>findFileFromLocation(loc)\<close> (an object with \<^verbatim>\<open>file()\<close> and \<^verbatim>\<open>line()\<close>, or
  \<^verbatim>\<open>undefined\<close>), \<^verbatim>\<open>findAddressFromFileLocation(file, line)\<close> (an object whose
  \<^verbatim>\<open>address()\<close> is kept here, or \<^verbatim>\<open>undefined\<close>), \<^verbatim>\<open>dwarf.variable_name_list(address)\<close>
  and \<^verbatim>\<open>dwarf.get_variable_info(expr, locals, globals, stacks, address)\<close>.
\<close>

record DwarfLocation =
  dl_file :: string
  dl_line :: jsnum

record Variable =
  var_name :: string
  var_type :: string

type_synonym WasmValueVector = "int list"

record WebAssemblyDebugState =
  stacks :: WasmValueVector
  locals :: WasmValueVector
  globals :: WasmValueVector

text \<open>The descriptor \<^verbatim>\<open>get_variable_info\<close> returns: \<^verbatim>\<open>address\<close>, \<^verbatim>\<open>byte_size\<close>, and what
  \<^verbatim>\<open>print()\<close> gives once \<^verbatim>\<open>set_memory_slice\<close> has stored the bytes.\<close>

record WasmVariable =
  wv_address :: jsnum
  wv_byte_size :: jsnum
  wv_print :: "nat list \<Rightarrow> string option"

record WebAssemblyFile =
  scriptID :: string
  wf_findFileFromLocation :: "Location \<Rightarrow> DwarfLocation option"
  wf_findAddressFromFileLocation :: "string \<Rightarrow> jsnum \<Rightarrow> jsnum option"
  wf_variable_name_list :: "jsnum option \<Rightarrow> Variable list option"
  wf_get_variable_info ::
    "string \<Rightarrow> WasmValueVector \<Rightarrow> WasmValueVector \<Rightarrow> WasmValueVector \<Rightarrow> jsnum option
      \<Rightarrow> WasmVariable option"

text \<open>\<^verbatim>\<open>DebugSession.reset\<close> frees every module and empties the list;
  \<^verbatim>\<open>loadedWebAssembly\<close> appends one.\<close>

definition reset :: "WebAssemblyFile list \<Rightarrow> WebAssemblyFile list" where
  "reset srcs = []"

definition loadedWebAssembly :: "WebAssemblyFile \<Rightarrow> WebAssemblyFile list \<Rightarrow> WebAssemblyFile list" where
  "loadedWebAssembly wasm srcs = srcs @ [wasm]"

text \<open>\<^verbatim>\<open>this.sources.filter(x => x.scriptID == loc.scriptId)[0]?.findFileFromLocation(loc)\<close>\<close>

definition findFileFromLocation :: "WebAssemblyFile list \<Rightarrow> Location \<Rightarrow> DwarfLocation option" where
  "findFileFromLocation srcs loc =
     (case filter (\<lambda>x. scriptID x = scriptId loc) srcs of
        [] \<Rightarrow> None
      | x # _ \<Rightarrow> wf_findFileFromLocation x loc)"

text \<open>The object \<^verbatim>\<open>{ scriptId, line: 0, column: address.address() }\<close>.\<close>

record WasmLocation =
  wl_scriptId :: string
  wl_line :: jsnum
  wl_column :: jsnum

fun findAddressFromFileLocation :: "WebAssemblyFile list \<Rightarrow> string \<Rightarrow> jsnum \<Rightarrow> WasmLocation option" where
  "findAddressFromFileLocation [] file line = None"
| "findAddressFromFileLocation (x # xs) file line =
     (case wf_findAddressFromFileLocation x file line of
        Some address \<Rightarrow> Some \<lparr>wl_scriptId = scriptID x, wl_line = Fin 0, wl_column = address\<rparr>
      | None \<Rightarrow> findAddressFromFileLocation xs file line)"

fun getVariablelistFromAddress :: "WebAssemblyFile list \<Rightarrow> jsnum option \<Rightarrow> Variable list option" where
  "getVariablelistFromAddress [] address = None"
| "getVariablelistFromAddress (x # xs) address =
     (case wf_variable_name_list x address of
        Some lst \<Rightarrow> (if length lst > 0 then Some lst else getVariablelistFromAddress xs address)
      | None \<Rightarrow> getVariablelistFromAddress xs address)"

fun getVariableValue ::
  "WebAssemblyFile list \<Rightarrow> string \<Rightarrow> jsnum option \<Rightarrow> WebAssemblyDebugState \<Rightarrow> WasmVariable option" where
  "getVariableValue [] expr address st = None"
| "getVariableValue (x # xs) expr address st =
     (case wf_get_variable_info x expr (locals st) (globals st) (stacks st) address of
        Some v \<Rightarrow> Some v
      | None \<Rightarrow> getVariableValue xs expr address st)"

section \<open>Breakpoints and stack frames\<close>

text \<open>\<^verbatim>\<open>RuntimeBreakPoint\<close> (\<^verbatim>\<open>id\<close>, \<^verbatim>\<open>rawId\<close>, \<^verbatim>\<open>file\<close>, \<^verbatim>\<open>line\<close>) and the
  \<^verbatim>\<open>IBreakPoint\<close> a caller gets back, whose \<^verbatim>\<open>id\<close>, \<^verbatim>\<open>line\<close> and \<^verbatim>\<open>column\<close> are optional.\<close>

record RuntimeBreakPoint =
  bp_id :: jsnum
  rawId :: string
  bp_file :: string
  bp_line :: jsnum

record IBreakPoint =
  ib_id :: "jsnum option"
  ib_line :: "jsnum option"
  ib_column :: "jsnum option"
  verified :: bool

text \<open>\<^verbatim>\<open>Protocol.Debugger.CallFrame\<close>, with \<^verbatim>\<open>scope.object.objectId\<close> for each scope of
  its chain.\<close>

record Scope =
  scope_objectId :: "string option"

record CallFrame =
  callFrameId :: string
  functionName :: string
  cf_location :: Location
  url :: string
  scopeChain :: "Scope list"

text \<open>\<^verbatim>\<open>IRuntimeStackFrame\<close> (\<^verbatim>\<open>index\<close>, \<^verbatim>\<open>name\<close>, \<^verbatim>\<open>instruction\<close>, \<^verbatim>\<open>file\<close>, \<^verbatim>\<open>line\<close>) and
  \<^verbatim>\<open>RuntimeStackFrame\<close> (\<^verbatim>\<open>frame\<close>, \<^verbatim>\<open>stack\<close>, \<^verbatim>\<open>state\<close>).\<close>

record IRuntimeStackFrame =
  sf_index :: nat
  sf_name :: string
  sf_instruction :: "jsnum option"
  sf_file :: string
  sf_line :: jsnum

record RuntimeStackFrame =
  frame :: CallFrame
  stack :: IRuntimeStackFrame
  state :: "WebAssemblyDebugState option"

text \<open>
  The two classes a manager's \<^verbatim>\<open>sessionState\<close> can be an instance of. A paused state
  owns its stack frames and \<^verbatim>\<open>selectedFrameIndex\<close>; the gateway and the
  \<^verbatim>\<open>DebugSession\<close> it also refers to are the manager's own objects, so the commands below
  read them from the manager. The manager's field \<open>sources\<close> is \<^verbatim>\<open>this.session.sources\<close>.
\<close>

datatype session_state =
    NormalSessionState
  | PausedSessionState "RuntimeStackFrame list" jsnum

record manager =
  sources :: "WebAssemblyFile list"
  breakPoints :: "RuntimeBreakPoint list"
  sessionState :: session_state

text \<open>The manager as its constructor leaves it.\<close>

definition new_manager :: manager where
  "new_manager = \<lparr>sources = [], breakPoints = [], sessionState = NormalSessionState\<rparr>"

definition new_world :: world where
  "new_world = \<lparr>calls = [], console = [], events = []\<rparr>"

text \<open>
  What the host provides besides the gateway: \<^verbatim>\<open>Number(s)\<close> (any function into the
  numbers above; a text with a fractional part has no value there), the file system calls of
  \<^verbatim>\<open>showLine\<close>, and \<^verbatim>\<open>createWasmValueStore\<close> of the interop module, which is handed
  the runtime domain only: it yields the runtime requests it made and its result.
\<close>

record host =
  Number_js :: "string \<Rightarrow> jsnum"
  existsSync :: "string \<Rightarrow> bool"
  readFileSync :: "string \<Rightarrow> js_error + string"
  interop_createWasmValueStore ::
    "gw_call list \<Rightarrow> PropertyDescriptor list \<Rightarrow> runtime_call list \<times> (js_error + WasmValueVector)"

section \<open>\<^verbatim>\<open>NormalSessionState\<close>\<close>

definition not_paused :: string where
  "not_paused = ''Debugger not paused!''"

definition normal_stepOver :: "world \<Rightarrow> (js_error + unit) \<times> world" where
  "normal_stepOver w = (Inr (), console_warn not_paused w)"

definition normal_stepIn :: "world \<Rightarrow> (js_error + unit) \<times> world" where
  "normal_stepIn w = (Inr (), console_warn not_paused w)"

definition normal_stepOut :: "world \<Rightarrow> (js_error + unit) \<times> world" where
  "normal_stepOut w = (Inr (), console_warn not_paused w)"

definition normal_continue :: "world \<Rightarrow> (js_error + unit) \<times> world" where
  "normal_continue w = (Inr (), console_warn not_paused w)"

definition normal_getStackFrames :: "world \<Rightarrow> (js_error + IRuntimeStackFrame list) \<times> world" where
  "normal_getStackFrames w = (Inr [], console_warn not_paused w)"

definition normal_showLine :: "world \<Rightarrow> (js_error + unit) \<times> world" where
  "normal_showLine w = (Inr (), console_warn not_paused w)"

definition normal_listVariable :: "world \<Rightarrow> (js_error + Variable list) \<times> world" where
  "normal_listVariable w = (Inr [], console_warn not_paused w)"

definition normal_dumpVariable :: "world \<Rightarrow> (js_error + string option) \<times> world" where
  "normal_dumpVariable w = (Inr None, console_warn not_paused w)"

definition normal_setFocusedFrame :: "world \<Rightarrow> (js_error + unit) \<times> world" where
  "normal_setFocusedFrame w = (Inr (), console_warn not_paused w)"

section \<open>\<^verbatim>\<open>PausedSessionState\<close>\<close>

definition paused_stepOver :: "gateway \<Rightarrow> world \<Rightarrow> (js_error + unit) \<times> world" where
  "paused_stepOver gw w = (on_stepOver gw (calls w), request (Debugger D_stepOver) w)"

definition paused_stepIn :: "gateway \<Rightarrow> world \<Rightarrow> (js_error + unit) \<times> world" where
  "paused_stepIn gw w = (on_stepOver gw (calls w), request (Debugger D_stepOver) w)"

definition paused_stepOut :: "gateway \<Rightarrow> world \<Rightarrow> (js_error + unit) \<times> world" where
  "paused_stepOut gw w = (on_stepOut gw (calls w), request (Debugger D_stepOut) w)"

definition paused_continue :: "gateway \<Rightarrow> world \<Rightarrow> (js_error + unit) \<times> world" where
  "paused_continue gw w = (on_resume gw (calls w), request (Debugger D_resume) w)"

definition paused_getStackFrames ::
  "RuntimeStackFrame list \<Rightarrow> world \<Rightarrow> (js_error + IRuntimeStackFrame list) \<times> world" where
  "paused_getStackFrames stackFrames w = (Inr (map stack stackFrames), w)"

text \<open>\<^verbatim>\<open>listVariable\<close>: a missing focused frame makes \<^verbatim>\<open>frame.stack\<close> a \<^verbatim>\<open>TypeError\<close>. The
  loop copies the name and the type name of each entry of the list.\<close>

definition paused_listVariable ::
  "WebAssemblyFile list \<Rightarrow> RuntimeStackFrame list \<Rightarrow> jsnum \<Rightarrow> world
    \<Rightarrow> (js_error + Variable list) \<times> world" where
  "paused_listVariable srcs stackFrames selectedFrameIndex w =
     (case js_index stackFrames selectedFrameIndex of
        None \<Rightarrow> (Inl TypeError, w)
      | Some fr \<Rightarrow>
          (case getVariablelistFromAddress srcs (sf_instruction (stack fr)) of
             None \<Rightarrow> (Inr [], console_log ''not available.'' w)
           | Some varlist \<Rightarrow>
               (Inr (map (\<lambda>i. \<lparr>var_name = var_name (varlist ! i), var_type = var_type (varlist ! i)\<rparr>)
                       [0 ..< length varlist]), w)))"

definition paused_setFocusedFrame :: "jsnum \<Rightarrow> world \<Rightarrow> (js_error + jsnum) \<times> world" where
  "paused_setFocusedFrame index w = (Inr index, w)"

text \<open>Sequencing of steps that may fail: the first failure ends the command.\<close>

definition return_io :: "'a \<Rightarrow> world \<Rightarrow> (js_error + 'a) \<times> world" where
  "return_io a w = (Inr a, w)"

definition bind_io ::
  "(world \<Rightarrow> (js_error + 'a) \<times> world) \<Rightarrow> ('a \<Rightarrow> world \<Rightarrow> (js_error + 'b) \<times> world)
    \<Rightarrow> world \<Rightarrow> (js_error + 'b) \<times> world" where
  "bind_io m f w = (case m w of (Inl e, w') \<Rightarrow> (Inl e, w') | (Inr a, w') \<Rightarrow> f a w')"

text \<open>\<^verbatim>\<open>this.runtime.getProperties({ objectId })\<close> and the interop module's
  \<^verbatim>\<open>createWasmValueStore(this.runtime, props)\<close>.\<close>

definition getProperties ::
  "gateway \<Rightarrow> string option \<Rightarrow> world \<Rightarrow> (js_error + PropertyDescriptor list) \<times> world" where
  "getProperties gw oid w =
     (on_getProperties gw (calls w) oid, request (Runtime (R_getProperties oid)) w)"

definition interop :: "host \<Rightarrow> PropertyDescriptor list \<Rightarrow> world \<Rightarrow> (js_error + WasmValueVector) \<times> world" where
  "interop h props w =
     (case interop_createWasmValueStore h (calls w) props of
        (cs, r) \<Rightarrow> (r, w\<lparr>calls := calls w @ map Runtime cs\<rparr>))"

text \<open>\<^verbatim>\<open>frame.scopeChain[i].object.objectId!\<close> and \<^verbatim>\<open>p.value!.objectId!\<close>: the \<^verbatim>\<open>!\<close> checks
  nothing, so a missing scope, property or value is a \<^verbatim>\<open>TypeError\<close> and a missing
  object id is passed on.\<close>

definition scope_at :: "CallFrame \<Rightarrow> nat \<Rightarrow> world \<Rightarrow> (js_error + string option) \<times> world" where
  "scope_at fr i w =
     (if i < length (scopeChain fr) then (Inr (scope_objectId (scopeChain fr ! i)), w)
      else (Inl TypeError, w))"

definition value_objectId ::
  "PropertyDescriptor option \<Rightarrow> world \<Rightarrow> (js_error + string option) \<times> world" where
  "value_objectId p w =
     (case p of
        None \<Rightarrow> (Inl TypeError, w)
      | Some d \<Rightarrow>
          (case pd_value d of
             None \<Rightarrow> (Inl TypeError, w)
           | Some v \<Rightarrow> (Inr (objectId v), w)))"

definition createWasmValueStore ::
  "host \<Rightarrow> gateway \<Rightarrow> CallFrame \<Rightarrow> world \<Rightarrow> (js_error + WebAssemblyDebugState) \<times> world" where
  "createWasmValueStore h gw fr =
     bind_io (scope_at fr 0) (\<lambda>o0.
     bind_io (getProperties gw o0) (\<lambda>wasmStackObject.
     bind_io (value_objectId (js_index wasmStackObject (Fin 0))) (\<lambda>o1.
     bind_io (getProperties gw o1) (\<lambda>wasmStacks.
     bind_io (interop h wasmStacks) (\<lambda>StacksStore.
     bind_io (scope_at fr 1) (\<lambda>o2.
     bind_io (getProperties gw o2) (\<lambda>wasmLocalObject.
     bind_io (interop h wasmLocalObject) (\<lambda>LocalsStore.
     bind_io (scope_at fr 2) (\<lambda>o3.
     bind_io (getProperties gw o3) (\<lambda>wasmModuleObject.
     bind_io (value_objectId
                (js_index (filter (\<lambda>x. pd_name x = ''globals'') wasmModuleObject) (Fin 0))) (\<lambda>o4.
     bind_io (getProperties gw o4) (\<lambda>wasmGlobals.
     bind_io (interop h wasmGlobals) (\<lambda>GlobalsStore.
     return_io \<lparr>stacks = StacksStore, locals = LocalsStore, globals = GlobalsStore\<rparr>
     )))))))))))))"

text \<open>A number inside a template string: for an integer below \<open>10^21\<close> in absolute
  value, its decimal digits.\<close>

fun digits :: "nat \<Rightarrow> string" where
  "digits n =
     (if n < 10 then [char_of (48 + n)]
      else digits (n div 10) @ [char_of (48 + n mod 10)])"

declare digits.simps [simp del]

fun String_js :: "jsnum \<Rightarrow> string" where
  "String_js NaN = ''NaN''"
| "String_js NegInf = ''-Infinity''"
| "String_js PosInf = ''Infinity''"
| "String_js (Fin i) = (if i < 0 then ''-'' @ digits (nat (- i)) else digits (nat i))"

text \<open>An element stored into a \<^verbatim>\<open>Uint8Array\<close>.\<close>

fun toUint8 :: "jsnum \<Rightarrow> nat" where
  "toUint8 (Fin i) = nat (i mod 256)"
| "toUint8 a = 0"

definition memory_expression :: "jsnum \<Rightarrow> jsnum \<Rightarrow> string" where
  "memory_expression address sz =
     ''new Uint8Array(memories[0].buffer).subarray('' @ String_js address @ '', '' @
       String_js (js_add address sz) @ '')''"

text \<open>
  \<^verbatim>\<open>evaluateMemory\<close>: the call frame id is read from \<^verbatim>\<open>this.stackFrames[0]\<close>, whatever
  frame is focused. \<^verbatim>\<open>Object.values\<close> of a missing value is a \<^verbatim>\<open>TypeError\<close>.
\<close>

definition evaluateMemory ::
  "gateway \<Rightarrow> RuntimeStackFrame list \<Rightarrow> jsnum \<Rightarrow> jsnum \<Rightarrow> world \<Rightarrow> (js_error + jsnum list) \<times> world" where
  "evaluateMemory gw stackFrames address sz w =
     (case js_index stackFrames (Fin 0) of
        None \<Rightarrow> (Inl TypeError, w)
      | Some f0 \<Rightarrow>
          (let cid = callFrameId (frame f0);
               expression = memory_expression address sz;
               w1 = request (Debugger (D_evaluateOnCallFrame cid expression)) w
           in case on_evaluateOnCallFrame gw (calls w) cid expression of
                Inl e \<Rightarrow> (Inl e, w1)
              | Inr None \<Rightarrow> (Inl TypeError, w1)
              | Inr (Some vs) \<Rightarrow> (Inr vs, w1)))"

text \<open>\<^verbatim>\<open>frame.state = ...\<close>: the focused frame is an element of the array, so the store
  is kept in the array.\<close>

fun set_state :: "RuntimeStackFrame list \<Rightarrow> jsnum \<Rightarrow> WebAssemblyDebugState \<Rightarrow> RuntimeStackFrame list" where
  "set_state stackFrames (Fin i) st =
     (if 0 \<le> i \<and> nat i < length stackFrames
      then stackFrames[nat i := (stackFrames ! nat i)\<lparr>state := Some st\<rparr>]
      else stackFrames)"
| "set_state stackFrames a st = stackFrames"

text \<open>\<^verbatim>\<open>if (!frame.state) { frame.state = await this.createWasmValueStore(frame.frame); }\<close>\<close>

definition frameState ::
  "host \<Rightarrow> gateway \<Rightarrow> RuntimeStackFrame \<Rightarrow> world \<Rightarrow> (js_error + WebAssemblyDebugState) \<times> world" where
  "frameState h gw fr w =
     (case state fr of
        Some st \<Rightarrow> (Inr st, w)
      | None \<Rightarrow> createWasmValueStore h gw (frame fr) w)"

definition paused_dumpVariable ::
  "host \<Rightarrow> gateway \<Rightarrow> WebAssemblyFile list \<Rightarrow> RuntimeStackFrame list \<Rightarrow> jsnum \<Rightarrow> string \<Rightarrow> world
    \<Rightarrow> (js_error + string option) \<times> RuntimeStackFrame list \<times> world" where
  "paused_dumpVariable h gw srcs stackFrames selectedFrameIndex expr w =
     (case js_index stackFrames selectedFrameIndex of
        None \<Rightarrow> (Inl TypeError, stackFrames, w)
      | Some fr \<Rightarrow>
          (case frameState h gw fr w of
             (Inl e, w1) \<Rightarrow> (Inl e, stackFrames, w1)
           | (Inr st, w1) \<Rightarrow>
               (let stackFrames1 = set_state stackFrames selectedFrameIndex st in
                case getVariableValue srcs expr (sf_instruction (stack fr)) st of
                  None \<Rightarrow> (Inr None, stackFrames1, console_log ''not available.'' w1)
                | Some wasmVariable \<Rightarrow>
                    (case evaluateMemory gw stackFrames1 (wv_address wasmVariable)
                            (wv_byte_size wasmVariable) w1 of
                       (Inl e, w2) \<Rightarrow> (Inl e, stackFrames1, w2)
                     | (Inr result, w2) \<Rightarrow>
                         (Inr (wv_print wasmVariable (map toUint8 result)), stackFrames1, w2)))))"

text \<open>
  \<^verbatim>\<open>showLine\<close>: the window of lines around the frame's line. \<^verbatim>\<open>Math.max(0, _)\<close> is never
  \<^verbatim>\<open>-Infinity\<close> and \<^verbatim>\<open>Math.min(lines.length - 1, _)\<close> never \<^verbatim>\<open>Infinity\<close>, so the loop runs
  only between two integers; with any other bounds its test fails at once.
\<close>

fun js_min2 :: "jsnum \<Rightarrow> jsnum \<Rightarrow> jsnum" where
  "js_min2 NaN b = NaN"
| "js_min2 a NaN = NaN"
| "js_min2 a b = (if js_le a b then a else b)"

definition replace_tabs :: "string \<Rightarrow> string" where
  "replace_tabs s = concat (map (\<lambda>c. if c = CHR 0x09 then ''    '' else [c]) s)"

definition showLine_text :: "string list \<Rightarrow> jsnum \<Rightarrow> int \<Rightarrow> string" where
  "showLine_text lines line i =
     (if js_eq (Fin (i + 1)) line then ''->'' else ''  '') @ '' '' @ String_js (Fin (i + 1)) @ ''  '' @
     (case js_index lines (Fin i) of Some l \<Rightarrow> l | None \<Rightarrow> ''undefined'')"

function showLine_loop :: "string list \<Rightarrow> jsnum \<Rightarrow> int \<Rightarrow> int \<Rightarrow> world \<Rightarrow> world" where
  "showLine_loop lines line i endLine w =
     (if i \<le> endLine
      then showLine_loop lines line (i + 1) endLine (console_log (showLine_text lines line i) w)
      else w)"
  by pat_completeness auto
termination
  by (relation "measure (\<lambda>(lines, line, i, endLine, w). nat (endLine + 1 - i))") auto

declare showLine_loop.simps [simp del]

definition paused_showLine ::
  "host \<Rightarrow> RuntimeStackFrame list \<Rightarrow> jsnum \<Rightarrow> world \<Rightarrow> (js_error + unit) \<times> world" where
  "paused_showLine h stackFrames selectedFrameIndex w =
     (case js_index stackFrames selectedFrameIndex of
        None \<Rightarrow> (Inl TypeError, w)
      | Some fr \<Rightarrow>
          (if existsSync h (sf_file (stack fr))
           then (case readFileSync h (sf_file (stack fr)) of
                   Inl e \<Rightarrow> (Inl e, w)
                 | Inr content \<Rightarrow>
                     (let lines = split_js CHR 0x0A (replace_tabs content);
                          startLine = js_max2 (Fin 0) (js_add (sf_line (stack fr)) (Fin (- 10)));
                          endLine = js_min2 (Fin (int (length lines) - 1))
                                      (js_add (sf_line (stack fr)) (Fin 10))
                      in case (startLine, endLine) of
                           (Fin a, Fin b) \<Rightarrow>
                             (Inr (), showLine_loop lines (sf_line (stack fr)) a b w)
                         | _ \<Rightarrow> (Inr (), w)))
           else (Inr (), console_log ''not available.'' w)))"

section \<open>\<^verbatim>\<open>DebugSessionManager\<close>: commands sent to the session state\<close>

text \<open>\<^verbatim>\<open>this.sessionState.stepOver()\<close> and its siblings: the method of the class the
  state is an instance of.\<close>

fun state_stepOver :: "gateway \<Rightarrow> session_state \<Rightarrow> world \<Rightarrow> (js_error + unit) \<times> world" where
  "state_stepOver gw NormalSessionState w = normal_stepOver w"
| "state_stepOver gw (PausedSessionState fs sel) w = paused_stepOver gw w"

fun state_stepIn :: "gateway \<Rightarrow> session_state \<Rightarrow> world \<Rightarrow> (js_error + unit) \<times> world" where
  "state_stepIn gw NormalSessionState w = normal_stepIn w"
| "state_stepIn gw (PausedSessionState fs sel) w = paused_stepIn gw w"

fun state_stepOut :: "gateway \<Rightarrow> session_state \<Rightarrow> world \<Rightarrow> (js_error + unit) \<times> world" where
  "state_stepOut gw NormalSessionState w = normal_stepOut w"
| "state_stepOut gw (PausedSessionState fs sel) w = paused_stepOut gw w"

fun state_continue :: "gateway \<Rightarrow> session_state \<Rightarrow> world \<Rightarrow> (js_error + unit) \<times> world" where
  "state_continue gw NormalSessionState w = normal_continue w"
| "state_continue gw (PausedSessionState fs sel) w = paused_continue gw w"

definition stepOver :: "gateway \<Rightarrow> manager \<Rightarrow> world \<Rightarrow> (js_error + unit) \<times> manager \<times> world" where
  "stepOver gw m w = (case state_stepOver gw (sessionState m) w of (r, w') \<Rightarrow> (r, m, w'))"

text \<open>The manager's \<^verbatim>\<open>stepIn\<close> calls \<^verbatim>\<open>this.sessionState.stepOver()\<close>.\<close>

definition stepIn :: "gateway \<Rightarrow> manager \<Rightarrow> world \<Rightarrow> (js_error + unit) \<times> manager \<times> world" where
  "stepIn gw m w = (case state_stepOver gw (sessionState m) w of (r, w') \<Rightarrow> (r, m, w'))"

definition stepOut :: "gateway \<Rightarrow> manager \<Rightarrow> world \<Rightarrow> (js_error + unit) \<times> manager \<times> world" where
  "stepOut gw m w = (case state_stepOut gw (sessionState m) w of (r, w') \<Rightarrow> (r, m, w'))"

definition continue :: "gateway \<Rightarrow> manager \<Rightarrow> world \<Rightarrow> (js_error + unit) \<times> manager \<times> world" where
  "continue gw m w = (case state_continue gw (sessionState m) w of (r, w') \<Rightarrow> (r, m, w'))"

definition getStackFrames ::
  "manager \<Rightarrow> world \<Rightarrow> (js_error + IRuntimeStackFrame list) \<times> manager \<times> world" where
  "getStackFrames m w =
     (case sessionState m of
        NormalSessionState \<Rightarrow> (case normal_getStackFrames w of (r, w') \<Rightarrow> (r, m, w'))
      | PausedSessionState fs sel \<Rightarrow> (case paused_getStackFrames fs w of (r, w') \<Rightarrow> (r, m, w')))"

text \<open>\<^verbatim>\<open>setFocusedFrame\<close> does not wait for the state's method, whose body has run by
  then: the paused state has stored the index.\<close>

definition setFocusedFrame :: "jsnum \<Rightarrow> manager \<Rightarrow> world \<Rightarrow> (js_error + unit) \<times> manager \<times> world" where
  "setFocusedFrame index m w =
     (case sessionState m of
        NormalSessionState \<Rightarrow> (case normal_setFocusedFrame w of (r, w') \<Rightarrow> (Inr (), m, w'))
      | PausedSessionState fs sel \<Rightarrow>
          (case paused_setFocusedFrame index w of
             (Inr sel', w') \<Rightarrow> (Inr (), m\<lparr>sessionState := PausedSessionState fs sel'\<rparr>, w')
           | (Inl e, w') \<Rightarrow> (Inr (), m, w')))"

definition showLine :: "host \<Rightarrow> manager \<Rightarrow> world \<Rightarrow> (js_error + unit) \<times> manager \<times> world" where
  "showLine h m w =
     (case sessionState m of
        NormalSessionState \<Rightarrow> (case normal_showLine w of (r, w') \<Rightarrow> (r, m, w'))
      | PausedSessionState fs sel \<Rightarrow> (case paused_showLine h fs sel w of (r, w') \<Rightarrow> (r, m, w')))"

definition listVariable :: "manager \<Rightarrow> world \<Rightarrow> (js_error + Variable list) \<times> manager \<times> world" where
  "listVariable m w =
     (case sessionState m of
        NormalSessionState \<Rightarrow> (case normal_listVariable w of (r, w') \<Rightarrow> (r, m, w'))
      | PausedSessionState fs sel \<Rightarrow>
          (case paused_listVariable (sources m) fs sel w of (r, w') \<Rightarrow> (r, m, w')))"


definition dumpVariable ::
  "host \<Rightarrow> gateway \<Rightarrow> string \<Rightarrow> manager \<Rightarrow> world \<Rightarrow> (js_error + string option) \<times> manager \<times> world" where
  "dumpVariable h gw expr m w =
     (case sessionState m of
        NormalSessionState \<Rightarrow> (case normal_dumpVariable w of (r, w') \<Rightarrow> (r, m, w'))
      | PausedSessionState fs sel \<Rightarrow>
          (case paused_dumpVariable h gw (sources m) fs sel expr w of
             (r, fs', w') \<Rightarrow> (r, m\<lparr>sessionState := PausedSessionState fs' sel\<rparr>, w')))"

section \<open>\<^verbatim>\<open>DebugSessionManager\<close>: breakpoints\<close>

text \<open>
  \<^verbatim>\<open>setBreakPoint\<close>. A location without \<^verbatim>\<open>:\<close> is answered at once. Otherwise the request
  goes to the gateway, with \<^verbatim>\<open>undefined\<close> fields when no module resolved the line; when
  the gateway rejects it the command fails there, before an id is computed.
\<close>

definition breakpointRequest :: "WasmLocation option \<Rightarrow> BreakpointRequest" where
  "breakpointRequest wasmLocation =
     \<lparr>rq_scriptId = map_option wl_scriptId wasmLocation,
      rq_lineNumber = map_option wl_line wasmLocation,
      rq_columnNumber = map_option wl_column wasmLocation\<rparr>"

definition setBreakPoint ::
  "host \<Rightarrow> gateway \<Rightarrow> string \<Rightarrow> manager \<Rightarrow> world \<Rightarrow> (js_error + IBreakPoint) \<times> manager \<times> world" where
  "setBreakPoint h gw location m w =
     (let fileInfo = split_js CHR '':'' location in
      if length fileInfo < 2
      then (Inr \<lparr>ib_id = None, ib_line = None, ib_column = None, verified = False\<rparr>, m, w)
      else
        (let debugfilename = fileInfo ! 0;
             debugline = Number_js h (fileInfo ! 1);
             wasmLocation = findAddressFromFileLocation (sources m) debugfilename debugline;
             rq = breakpointRequest wasmLocation;
             w1 = request (Debugger (D_setBreakpoint rq)) w
         in case on_setBreakpoint gw (calls w) rq of
              Inl e \<Rightarrow> (Inl e, m, w1)
            | Inr breakpointId \<Rightarrow>
                (let bpID = js_add (Math_max (map bp_id (breakPoints m))) (Fin 1) in
                 (Inr \<lparr>ib_id = Some bpID, ib_line = Some debugline, ib_column = None,
                        verified = True\<rparr>,
                  m\<lparr>breakPoints := breakPoints m @
                       [\<lparr>bp_id = bpID, rawId = breakpointId, bp_file = debugfilename,
                         bp_line = debugline\<rparr>]\<rparr>,
                  w1))))"

text \<open>
  \<^verbatim>\<open>removeBreakPoint\<close> and \<^verbatim>\<open>removeAllBreakPoints\<close>: \<^verbatim>\<open>map\<close> sends one removal request for
  each selected record, then the records are dropped from the list, and only then are the
  replies awaited. The command fails when a reply is a failure; the model reports the
  first one in request order.
\<close>

fun removeRequests :: "gateway \<Rightarrow> RuntimeBreakPoint list \<Rightarrow> world \<Rightarrow> (js_error + unit) list \<times> world" where
  "removeRequests gw [] w = ([], w)"
| "removeRequests gw (x # xs) w =
     (case removeRequests gw xs (request (Debugger (D_removeBreakpoint (rawId x))) w) of
        (rs, w') \<Rightarrow> (on_removeBreakpoint gw (calls w) (rawId x) # rs, w'))"

fun Promise_all :: "(js_error + unit) list \<Rightarrow> js_error + unit" where
  "Promise_all [] = Inr ()"
| "Promise_all (Inl e # rs) = Inl e"
| "Promise_all (Inr u # rs) = Promise_all rs"

definition removeBreakPoint ::
  "gateway \<Rightarrow> jsnum \<Rightarrow> manager \<Rightarrow> world \<Rightarrow> (js_error + unit) \<times> manager \<times> world" where
  "removeBreakPoint gw ident m w =
     (case removeRequests gw (filter (\<lambda>x. js_eq (bp_id x) ident) (breakPoints m)) w of
        (promises, w') \<Rightarrow>
          (Promise_all promises,
           m\<lparr>breakPoints := filter (\<lambda>x. \<not> js_eq (bp_id x) ident) (breakPoints m)\<rparr>,
           w'))"

definition removeAllBreakPoints ::
  "gateway \<Rightarrow> string \<Rightarrow> manager \<Rightarrow> world \<Rightarrow> (js_error + unit) \<times> manager \<times> world" where
  "removeAllBreakPoints gw path m w =
     (case removeRequests gw (filter (\<lambda>x. bp_file x = path) (breakPoints m)) w of
        (promises, w') \<Rightarrow>
          (Promise_all promises,
           m\<lparr>breakPoints := filter (\<lambda>x. bp_file x \<noteq> path) (breakPoints m)\<rparr>,
           w'))"

text \<open>\<^verbatim>\<open>getBreakPointsList\<close> returns each matching record with \<^verbatim>\<open>verified: true\<close> added.\<close>

definition getBreakPointsList ::
  "host \<Rightarrow> string \<Rightarrow> manager \<Rightarrow> (RuntimeBreakPoint \<times> bool) list" where
  "getBreakPointsList h location m =
     (let fileInfo = split_js CHR '':'' location in
      if length fileInfo < 2 then []
      else
        (let debugfilename = fileInfo ! 0;
             debugline = Number_js h (fileInfo ! 1)
         in map (\<lambda>x. (x, True))
              (filter (\<lambda>x. bp_file x = debugfilename \<and> js_eq (bp_line x) debugline)
                 (breakPoints m))))"

section \<open>\<^verbatim>\<open>DebugSessionManager\<close>: gateway notifications\<close>

text \<open>\<^verbatim>\<open>a || b\<close> where \<open>a\<close> is \<^verbatim>\<open>dwarfLocation?.file()\<close> or \<^verbatim>\<open>dwarfLocation?.line()\<close>: \<open>b\<close> when
  there is no location, and also when the location's value is falsy.\<close>

definition or_str :: "string option \<Rightarrow> string \<Rightarrow> string" where
  "or_str a b = (case a of None \<Rightarrow> b | Some s \<Rightarrow> if truthy_str s then s else b)"

definition or_num :: "jsnum option \<Rightarrow> jsnum \<Rightarrow> jsnum" where
  "or_num a b = (case a of None \<Rightarrow> b | Some n \<Rightarrow> if truthy_num n then n else b)"

text \<open>The callback \<^verbatim>\<open>(v, i) => ...\<close> of \<^verbatim>\<open>onPaused\<close>.\<close>

definition stackFrameOf :: "WebAssemblyFile list \<Rightarrow> CallFrame \<Rightarrow> nat \<Rightarrow> RuntimeStackFrame" where
  "stackFrameOf srcs v i =
     (let dwarfLocation = findFileFromLocation srcs (cf_location v) in
      \<lparr>frame = v,
       stack = \<lparr>sf_index = i,
                sf_name = functionName v,
                sf_instruction = columnNumber (cf_location v),
                sf_file = or_str (map_option dl_file dwarfLocation) (url v),
                sf_line = or_num (map_option dl_line dwarfLocation) (lineNumber (cf_location v))\<rparr>,
       state = None\<rparr>)"

definition DummyThreadID :: nat where
  "DummyThreadID = 1"

definition onPaused :: "CallFrame list \<Rightarrow> manager \<Rightarrow> world \<Rightarrow> manager \<times> world" where
  "onPaused callFrames m w =
     (let w1 = console_log ''Hit BreakPointMapping'' w;
          stackFrames = map (\<lambda>(i, v). stackFrameOf (sources m) v i) (enumerate 0 callFrames)
      in (m\<lparr>sessionState := PausedSessionState stackFrames (Fin 0)\<rparr>,
          sendEvent (StoppedEvent ''BreakPointMapping'' DummyThreadID) w1))"

definition onResumed :: "manager \<Rightarrow> world \<Rightarrow> manager \<times> world" where
  "onResumed m w = (m\<lparr>sessionState := NormalSessionState\<rparr>, w)"

text \<open>\<^verbatim>\<open>onLoad\<close> resets the \<^verbatim>\<open>DebugSession\<close> and assigns nothing else.\<close>

definition onLoad :: "manager \<Rightarrow> world \<Rightarrow> manager \<times> world" where
  "onLoad m w = (m\<lparr>sources := reset (sources m)\<rparr>, console_log ''Page navigated.'' w)"

section \<open>A concrete session\<close>

text \<open>
  One module, script \<open>7\<close>, whose debug information maps address 16 to \<open>main.c:5\<close> and
  back, and address 32 to line 0 of \<open>main.c\<close> (an instruction without a source line); at
  address 16 the variable \<open>x\<close> is in scope, four bytes at address 1024.
\<close>

definition ex_x :: WasmVariable where
  "ex_x = \<lparr>wv_address = Fin 1024, wv_byte_size = Fin 4,
           wv_print = (\<lambda>bytes. Some (String_js (Fin (int (hd bytes)))))\<rparr>"

definition ex_module :: WebAssemblyFile where
  "ex_module =
     \<lparr>scriptID = ''7'',
      wf_findFileFromLocation =
        (\<lambda>loc. if columnNumber loc = Some (Fin 16) then Some \<lparr>dl_file = ''main.c'', dl_line = Fin 5\<rparr>
               else if columnNumber loc = Some (Fin 32) then Some \<lparr>dl_file = ''main.c'', dl_line = Fin 0\<rparr>
               else None),
      wf_findAddressFromFileLocation =
        (\<lambda>file line. if file = ''main.c'' \<and> line = Fin 5 then Some (Fin 16) else None),
      wf_variable_name_list =
        (\<lambda>address. if address = Some (Fin 16) then Some [\<lparr>var_name = ''x'', var_type = ''int''\<rparr>]
                   else None),
      wf_get_variable_info =
        (\<lambda>expr ls gs ss address. if expr = ''x'' \<and> address = Some (Fin 16) then Some ex_x else None)\<rparr>"

text \<open>A module without debug information that carries the same script id.\<close>

definition ex_blank :: WebAssemblyFile where
  "ex_blank =
     \<lparr>scriptID = ''7'',
      wf_findFileFromLocation = (\<lambda>loc. None),
      wf_findAddressFromFileLocation = (\<lambda>file line. None),
      wf_variable_name_list = (\<lambda>address. None),
      wf_get_variable_info = (\<lambda>expr ls gs ss address. None)\<rparr>"

text \<open>
  A host whose \<^verbatim>\<open>Number\<close> is taken on the strings used below only: a string of decimal
  digits is its value, the empty string is 0, and a string with any other character is
  read as \<^verbatim>\<open>NaN\<close>. There are no files, and the interop module makes no request.
\<close>

definition is_digit :: "char \<Rightarrow> bool" where
  "is_digit c = (48 \<le> (of_char c :: nat) \<and> (of_char c :: nat) \<le> 57)"

definition Number_dec :: "string \<Rightarrow> jsnum" where
  "Number_dec s =
     (if list_all is_digit s
      then Fin (foldl (\<lambda>a c. 10 * a + (int (of_char c) - 48)) 0 s)
      else NaN)"

definition ex_host :: host where
  "ex_host =
     \<lparr>Number_js = Number_dec,
      existsSync = (\<lambda>path. False),
      readFileSync = (\<lambda>path. Inl (FileError path)),
      interop_createWasmValueStore = (\<lambda>cs props. ([], Inr []))\<rparr>"

text \<open>A gateway that accepts every request, one that rejects a breakpoint without a
  script id, and one that rejects everything.\<close>

definition ex_gateway :: gateway where
  "ex_gateway =
     \<lparr>on_stepOver = (\<lambda>cs. Inr ()),
      on_stepInto = (\<lambda>cs. Inr ()),
      on_stepOut = (\<lambda>cs. Inr ()),
      on_resume = (\<lambda>cs. Inr ()),
      on_setBreakpoint = (\<lambda>cs rq. Inr ''raw''),
      on_removeBreakpoint = (\<lambda>cs raw. Inr ()),
      on_evaluateOnCallFrame = (\<lambda>cs cid expression. Inr (Some [Fin 42, Fin 0, Fin 0, Fin 0])),
      on_getProperties =
        (\<lambda>cs oid. Inr [\<lparr>pd_name = ''globals'',
                          pd_value = Some \<lparr>objectId = Some ''object'', description = []\<rparr>\<rparr>])\<rparr>"

definition ex_gateway_strict :: gateway where
  "ex_gateway_strict =
     ex_gateway\<lparr>on_setBreakpoint :=
       (\<lambda>cs rq. case rq_scriptId rq of
                   None \<Rightarrow> Inl (GatewayFailure ''Invalid parameters'')
                 | Some s \<Rightarrow> Inr ''raw'')\<rparr>"

definition ex_gateway_down :: gateway where
  "ex_gateway_down =
     \<lparr>on_stepOver = (\<lambda>cs. Inl (GatewayFailure ''closed'')),
      on_stepInto = (\<lambda>cs. Inl (GatewayFailure ''closed'')),
      on_stepOut = (\<lambda>cs. Inl (GatewayFailure ''closed'')),
      on_resume = (\<lambda>cs. Inl (GatewayFailure ''closed'')),
      on_setBreakpoint = (\<lambda>cs rq. Inl (GatewayFailure ''closed'')),
      on_removeBreakpoint = (\<lambda>cs raw. Inl (GatewayFailure ''closed'')),
      on_evaluateOnCallFrame = (\<lambda>cs cid expression. Inl (GatewayFailure ''closed'')),
      on_getProperties = (\<lambda>cs oid. Inl (GatewayFailure ''closed''))\<rparr>"

text \<open>The manager once the module is loaded, and two call frames: the inner one at
  address 32 (line 3 of the script for the protocol), the outer one at address 16.\<close>

definition ex_loaded :: manager where
  "ex_loaded = new_manager\<lparr>sources := loadedWebAssembly ex_module (sources new_manager)\<rparr>"

definition ex_inner :: CallFrame where
  "ex_inner =
     \<lparr>callFrameId = ''frame-0'', functionName = ''helper'',
      cf_location = \<lparr>scriptId = ''7'', lineNumber = Fin 3, columnNumber = Some (Fin 32)\<rparr>,
      url = ''wasm://wasm/7'', scopeChain = []\<rparr>"

definition ex_outer :: CallFrame where
  "ex_outer =
     \<lparr>callFrameId = ''frame-1'', functionName = ''main'',
      cf_location = \<lparr>scriptId = ''7'', lineNumber = Fin 0, columnNumber = Some (Fin 16)\<rparr>,
      url = ''wasm://wasm/7'',
      scopeChain = [\<lparr>scope_objectId = Some ''s0''\<rparr>, \<lparr>scope_objectId = Some ''s1''\<rparr>,
                    \<lparr>scope_objectId = Some ''s2''\<rparr>]\<rparr>"

definition ex_state :: WebAssemblyDebugState where
  "ex_state = \<lparr>stacks = [], locals = [7], globals = []\<rparr>"

text \<open>The session paused on the two frames, the same session after the page has
  loaded again, and the paused session with the outer frame focused.\<close>

definition ex_paused :: manager where
  "ex_paused = fst (onPaused [ex_inner, ex_outer] ex_loaded new_world)"


definition ex_focused :: manager where
  "ex_focused = fst (snd (setFocusedFrame (Fin 1) ex_paused new_world))"

text \<open>Two records under one id and one under another, and a registry where the
  module without debug information was loaded first.\<close>

definition ex_registry :: manager where
  "ex_registry =
     ex_loaded\<lparr>breakPoints :=
       [\<lparr>bp_id = Fin 1, rawId = ''a'', bp_file = ''main.c'', bp_line = Fin 5\<rparr>,
        \<lparr>bp_id = Fin 2, rawId = ''b'', bp_file = ''main.c'', bp_line = Fin 6\<rparr>,
        \<lparr>bp_id = Fin 1, rawId = ''c'', bp_file = ''util.c'', bp_line = Fin 9\<rparr>]\<rparr>"

definition ex_shadowed :: "WebAssemblyFile list" where
  "ex_shadowed = loadedWebAssembly ex_module (loadedWebAssembly ex_blank [])"

text \<open>The location \<^verbatim>\<open>setBreakPoint\<close> builds from the answer of
  \<^verbatim>\<open>findAddressFromFileLocation\<close>: \<^verbatim>\<open>line\<close> becomes \<^verbatim>\<open>lineNumber\<close> and \<^verbatim>\<open>column\<close> becomes
  \<^verbatim>\<open>columnNumber\<close>.\<close>

definition protocolLocation :: "WasmLocation \<Rightarrow> Location" where
  "protocolLocation a =
     \<lparr>scriptId = wl_scriptId a, lineNumber = wl_line a, columnNumber = Some (wl_column a)\<rparr>"

section \<open>Facts about the host functions and the concrete session\<close>

lemma length_split_js: "length (split_js sep s) = Suc (length (filter (\<lambda>c. c = sep) s))"
  by (induction s) (auto split: list.splits)

lemma split_js_short: "length (split_js sep s) < 2 \<longleftrightarrow> sep \<notin> set s"
  by (auto simp add: length_split_js filter_empty_conv)

lemma Math_max_NegInf: "list_all (\<lambda>n. n = NegInf) ns \<Longrightarrow> Math_max ns = NegInf"
  unfolding Math_max_def by (induction ns) auto

lemma foldl_js_max2_Fin: "foldl js_max2 (Fin a) (map Fin ns) = Fin (fold max ns a)"
  by (induction ns arbitrary: a) (auto simp add: max_def)

lemma Math_max_Fin: "Math_max (map Fin (n # ns)) = Fin (Max (set (n # ns)))"
proof -
  have "Math_max (map Fin (n # ns)) = Fin (fold max ns n)"
    by (simp add: Math_max_def foldl_js_max2_Fin)
  also have "fold max ns n = Max (set (n # ns))"
    by (rule Max.set_eq_fold [symmetric])
  finally show ?thesis .
qed

lemma ex_loaded_simps:
  "sources ex_loaded = [ex_module]" "breakPoints ex_loaded = []"
  "sessionState ex_loaded = NormalSessionState"
  by (simp_all add: ex_loaded_def new_manager_def loadedWebAssembly_def)

lemma ex_module_scriptID: "scriptID ex_module = ''7''"
  by (simp add: ex_module_def)

lemma ex_module_address:
  "wf_findAddressFromFileLocation ex_module file line =
     (if file = ''main.c'' \<and> line = Fin 5 then Some (Fin 16) else None)"
  by (simp add: ex_module_def)

lemma ex_module_location:
  "wf_findFileFromLocation ex_module loc =
     (if columnNumber loc = Some (Fin 16) then Some \<lparr>dl_file = ''main.c'', dl_line = Fin 5\<rparr>
      else if columnNumber loc = Some (Fin 32) then Some \<lparr>dl_file = ''main.c'', dl_line = Fin 0\<rparr>
      else None)"
  by (simp add: ex_module_def)

lemma ex_module_variables:
  "wf_variable_name_list ex_module address =
     (if address = Some (Fin 16) then Some [\<lparr>var_name = ''x'', var_type = ''int''\<rparr>] else None)"
  "wf_get_variable_info ex_module expr ls gs ss address =
     (if expr = ''x'' \<and> address = Some (Fin 16) then Some ex_x else None)"
  by (simp_all add: ex_module_def)

lemma Number_dec_simps:
  "Number_dec ''5'' = Fin 5" "Number_dec ''abc'' = NaN"
  by (simp_all add: Number_dec_def is_digit_def)

lemma ex_host_Number: "Number_js ex_host = Number_dec"
  by (simp add: ex_host_def)

lemma ex_gateway_setBreakpoint:
  "on_setBreakpoint ex_gateway cs rq = Inr ''raw''"
  "on_setBreakpoint ex_gateway_strict cs rq =
     (case rq_scriptId rq of None \<Rightarrow> Inl (GatewayFailure ''Invalid parameters'') | Some s \<Rightarrow> Inr ''raw'')"
  by (simp_all add: ex_gateway_def ex_gateway_strict_def)

lemma ex_gateway_getProperties:
  "on_getProperties ex_gateway cs oid =
     Inr [\<lparr>pd_name = ''globals'', pd_value = Some \<lparr>objectId = Some ''object'', description = []\<rparr>\<rparr>]"
  by (simp add: ex_gateway_def)

lemma ex_gateway_evaluate:
  "on_evaluateOnCallFrame ex_gateway cs cid expression = Inr (Some [Fin 42, Fin 0, Fin 0, Fin 0])"
  by (simp add: ex_gateway_def)

lemma ex_gateway_down_remove:
  "on_removeBreakpoint ex_gateway_down cs raw = Inl (GatewayFailure ''closed'')"
  by (simp add: ex_gateway_down_def)

lemma ex_host_interop: "interop_createWasmValueStore ex_host cs props = ([], Inr [])"
  by (simp add: ex_host_def)

lemma ex_frames:
  "scopeChain ex_outer = [\<lparr>scope_objectId = Some ''s0''\<rparr>, \<lparr>scope_objectId = Some ''s1''\<rparr>,
                    \<lparr>scope_objectId = Some ''s2''\<rparr>]"
  "callFrameId ex_outer = ''frame-1''" "callFrameId ex_inner = ''frame-0''"
  by (simp_all add: ex_outer_def ex_inner_def)

lemma ex_expression:
  "memory_expression (Fin 1024) (Fin 4) =
     ''new Uint8Array(memories[0].buffer).subarray(1024, 1028)''"
  by code_simp

lemma ex_print: "digits 42 = ''42''"
  by code_simp

lemma ex_registry_breakPoints:
  "breakPoints ex_registry =
     [\<lparr>bp_id = Fin 1, rawId = ''a'', bp_file = ''main.c'', bp_line = Fin 5\<rparr>,
      \<lparr>bp_id = Fin 2, rawId = ''b'', bp_file = ''main.c'', bp_line = Fin 6\<rparr>,
      \<lparr>bp_id = Fin 1, rawId = ''c'', bp_file = ''util.c'', bp_line = Fin 9\<rparr>]"
  by (simp add: ex_registry_def)

lemmas ex_breakpoint_simps = ex_loaded_simps ex_module_address ex_module_scriptID Number_dec_simps
  ex_host_Number ex_gateway_setBreakpoint breakpointRequest_def Math_max_def request_def
  new_world_def Let_def

lemma onPaused_state:
  "sessionState (fst (onPaused callFrames m w)) =
     PausedSessionState (map (\<lambda>(i, v). stackFrameOf (sources m) v i) (enumerate 0 callFrames)) (Fin 0)"
  by (simp add: onPaused_def Let_def)

lemma ex_paused_state:
  "sessionState ex_paused =
     PausedSessionState
       [\<lparr>frame = ex_inner,
         stack = \<lparr>sf_index = 0, sf_name = ''helper'', sf_instruction = Some (Fin 32),
                  sf_file = ''main.c'', sf_line = Fin 3\<rparr>,
         state = None\<rparr>,
        \<lparr>frame = ex_outer,
         stack = \<lparr>sf_index = 1, sf_name = ''main'', sf_instruction = Some (Fin 16),
                  sf_file = ''main.c'', sf_line = Fin 5\<rparr>,
         state = None\<rparr>]
       (Fin 0)"
  by (simp add: ex_paused_def onPaused_state enumerate_simps stackFrameOf_def Let_def
      findFileFromLocation_def ex_loaded_simps ex_module_scriptID ex_module_location
      ex_inner_def ex_outer_def or_str_def or_num_def truthy_str_def)

lemma ex_paused_rest:
  "sources ex_paused = [ex_module]" "breakPoints ex_paused = []"
  by (simp_all add: ex_paused_def onPaused_def Let_def ex_loaded_simps)

lemma ex_focused_state:
  "sessionState ex_focused =
     PausedSessionState
       [\<lparr>frame = ex_inner,
         stack = \<lparr>sf_index = 0, sf_name = ''helper'', sf_instruction = Some (Fin 32),
                  sf_file = ''main.c'', sf_line = Fin 3\<rparr>,
         state = None\<rparr>,
        \<lparr>frame = ex_outer,
         stack = \<lparr>sf_index = 1, sf_name = ''main'', sf_instruction = Some (Fin 16),
                  sf_file = ''main.c'', sf_line = Fin 5\<rparr>,
         state = None\<rparr>]
       (Fin 1)"
  "sources ex_focused = [ex_module]"
  by (simp_all add: ex_focused_def setFocusedFrame_def paused_setFocusedFrame_def ex_paused_state
      ex_paused_rest)

lemma ex_store:
  "createWasmValueStore ex_host ex_gateway ex_outer new_world =
     (Inr \<lparr>stacks = [], locals = [], globals = []\<rparr>,
      new_world\<lparr>calls :=
        [Runtime (R_getProperties (Some ''s0'')), Runtime (R_getProperties (Some ''object'')),
         Runtime (R_getProperties (Some ''s1'')), Runtime (R_getProperties (Some ''s2'')),
         Runtime (R_getProperties (Some ''object''))]\<rparr>)"
  by (simp add: createWasmValueStore_def bind_io_def return_io_def scope_at_def getProperties_def
      value_objectId_def interop_def request_def new_world_def ex_gateway_getProperties
      ex_host_interop ex_frames)

section \<open>Setting a breakpoint\<close>

text \<open>
  C5. For every location string without a \<open>:\<close>, \<^verbatim>\<open>setBreakPoint\<close> returns a breakpoint
  with \<open>verified = false\<close> and no id, and leaves the manager (so the breakpoint registry)
  and the outside world (so the list of gateway requests) as they were.
\<close>

theorem setBreakPoint_malformed:
  assumes "CHR '':'' \<notin> set location"
  shows "setBreakPoint h gw location m w =
           (Inr \<lparr>ib_id = None, ib_line = None, ib_column = None, verified = False\<rparr>, m, w)"
  using assms by (simp add: setBreakPoint_def split_js_short)

theorem setBreakPoint_malformed_witness:
  "CHR '':'' \<notin> set ''main.c'' \<and>
   setBreakPoint ex_host ex_gateway ''main.c'' ex_loaded new_world =
     (Inr \<lparr>ib_id = None, ib_line = None, ib_column = None, verified = False\<rparr>, ex_loaded, new_world)"
  using setBreakPoint_malformed [of "''main.c''" ex_host ex_gateway ex_loaded new_world]
  by simp




text \<open>
  C1. The id \<^verbatim>\<open>setBreakPoint\<close> allocates is \<^verbatim>\<open>Math.max\<close> of the ids in the registry plus
  one, and \<^verbatim>\<open>Math.max\<close> of no argument is \<^verbatim>\<open>-Infinity\<close>: in a registry that is empty, or
  whose ids are all \<^verbatim>\<open>-Infinity\<close>, every breakpoint that is set gets the id \<^verbatim>\<open>-Infinity\<close>,
  and the registry is again one whose ids are all \<^verbatim>\<open>-Infinity\<close>. So the first id is not
  1, and the ids of successive calls do not increase.
\<close>

theorem setBreakPoint_id_NegInf:
  assumes "list_all (\<lambda>x. bp_id x = NegInf) (breakPoints m)"
    and "setBreakPoint h gw location m w = (Inr b, m', w')"
    and "verified b"
  shows "ib_id b = Some NegInf \<and> list_all (\<lambda>x. bp_id x = NegInf) (breakPoints m')"
proof -
  have mx: "Math_max (map bp_id (breakPoints m)) = NegInf"
    using assms(1) by (intro Math_max_NegInf) (simp add: list_all_iff)
  show ?thesis
    using assms by (auto simp add: setBreakPoint_def Let_def mx split: if_splits sum.splits)
qed

text \<open>Two calls in a row on the manager as it starts, with its module loaded.\<close>

theorem setBreakPoint_id_NegInf_witness:
  "breakPoints ex_loaded = [] \<and>
   setBreakPoint ex_host ex_gateway ''main.c:5'' ex_loaded new_world =
     (Inr \<lparr>ib_id = Some NegInf, ib_line = Some (Fin 5), ib_column = None, verified = True\<rparr>,
      ex_loaded\<lparr>breakPoints :=
        [\<lparr>bp_id = NegInf, rawId = ''raw'', bp_file = ''main.c'', bp_line = Fin 5\<rparr>]\<rparr>,
      new_world\<lparr>calls := [Debugger (D_setBreakpoint
         \<lparr>rq_scriptId = Some ''7'', rq_lineNumber = Some (Fin 0), rq_columnNumber = Some (Fin 16)\<rparr>)]\<rparr>) \<and>
   fst (setBreakPoint ex_host ex_gateway ''main.c:5''
          (ex_loaded\<lparr>breakPoints :=
             [\<lparr>bp_id = NegInf, rawId = ''raw'', bp_file = ''main.c'', bp_line = Fin 5\<rparr>]\<rparr>)
          (new_world\<lparr>calls := [Debugger (D_setBreakpoint
             \<lparr>rq_scriptId = Some ''7'', rq_lineNumber = Some (Fin 0),
               rq_columnNumber = Some (Fin 16)\<rparr>)]\<rparr>)) =
     Inr \<lparr>ib_id = Some NegInf, ib_line = Some (Fin 5), ib_column = None, verified = True\<rparr>"
proof -
  let ?b = "\<lparr>ib_id = Some NegInf, ib_line = Some (Fin 5), ib_column = None, verified = True\<rparr>"
  let ?m1 = "ex_loaded\<lparr>breakPoints :=
        [\<lparr>bp_id = NegInf, rawId = ''raw'', bp_file = ''main.c'', bp_line = Fin 5\<rparr>]\<rparr>"
  let ?w1 = "new_world\<lparr>calls := [Debugger (D_setBreakpoint
         \<lparr>rq_scriptId = Some ''7'', rq_lineNumber = Some (Fin 0), rq_columnNumber = Some (Fin 16)\<rparr>)]\<rparr>"
  have first: "setBreakPoint ex_host ex_gateway ''main.c:5'' ex_loaded new_world = (Inr ?b, ?m1, ?w1)"
    by (simp add: setBreakPoint_def ex_breakpoint_simps)
  have "list_all (\<lambda>x. bp_id x = NegInf) (breakPoints ex_loaded)"
    by (simp add: ex_loaded_simps)
  from setBreakPoint_id_NegInf [OF this first] have inv: "list_all (\<lambda>x. bp_id x = NegInf) (breakPoints ?m1)"
    by simp
  have second: "fst (setBreakPoint ex_host ex_gateway ''main.c:5'' ?m1 ?w1) = Inr ?b"
    by (simp add: setBreakPoint_def ex_breakpoint_simps)
  from first second inv show ?thesis
    by (simp add: ex_loaded_simps)
qed

text \<open>Where the registry holds integers as ids, the new id is the largest of them plus
  one.\<close>

lemma setBreakPoint_id_finite:
  assumes "map bp_id (breakPoints m) = map Fin (n # ns)"
    and "setBreakPoint h gw location m w = (Inr b, m', w')"
    and "verified b"
  shows "ib_id b = Some (Fin (Max (set (n # ns)) + 1))"
proof -
  have "Math_max (map bp_id (breakPoints m)) = Fin (Max (set (n # ns)))"
    unfolding assms(1) by (rule Math_max_Fin)
  then show ?thesis
    using assms(2,3) by (auto simp add: setBreakPoint_def Let_def split: if_splits sum.splits)
qed

section \<open>Removing a breakpoint\<close>

lemma removeRequests_world:
  "removeRequests gw xs w = (rs, w') \<Longrightarrow>
     calls w' = calls w @ map (\<lambda>x. Debugger (D_removeBreakpoint (rawId x))) xs \<and>
     console w' = console w \<and> events w' = events w \<and> length rs = length xs"
proof (induction xs arbitrary: w rs w')
  case Nil
  then show ?case by simp
next
  case (Cons x xs)
  obtain rs0 w0 where
    r: "removeRequests gw xs (request (Debugger (D_removeBreakpoint (rawId x))) w) = (rs0, w0)"
    by (cases "removeRequests gw xs (request (Debugger (D_removeBreakpoint (rawId x))) w)")
  with Cons.prems have "w' = w0" "rs = on_removeBreakpoint gw (calls w) (rawId x) # rs0"
    by simp_all
  with Cons.IH [OF r] show ?case
    by (simp add: request_def)
qed

text \<open>
  C6. For every id, whatever the gateway answers and whether \<^verbatim>\<open>removeBreakPoint\<close> ends
  well or in a failure: the registry afterwards is the old one without the records
  whose id equals the given one, so none of its records has that id; and the requests
  sent to the gateway are one removal for each removed record, with its raw id, in
  registry order.
\<close>

theorem removeBreakPoint_removes:
  assumes "removeBreakPoint gw ident m w = (r, m', w')"
  shows "breakPoints m' = filter (\<lambda>x. \<not> js_eq (bp_id x) ident) (breakPoints m) \<and>
         filter (\<lambda>x. js_eq (bp_id x) ident) (breakPoints m') = [] \<and>
         calls w' = calls w @ map (\<lambda>x. Debugger (D_removeBreakpoint (rawId x)))
                      (filter (\<lambda>x. js_eq (bp_id x) ident) (breakPoints m))"
proof -
  obtain rs w0 where
    rq: "removeRequests gw (filter (\<lambda>x. js_eq (bp_id x) ident) (breakPoints m)) w = (rs, w0)"
    by (cases "removeRequests gw (filter (\<lambda>x. js_eq (bp_id x) ident) (breakPoints m)) w")
  with assms have "w' = w0"
    and m': "m' = m\<lparr>breakPoints := filter (\<lambda>x. \<not> js_eq (bp_id x) ident) (breakPoints m)\<rparr>"
    by (simp_all add: removeBreakPoint_def)
  with removeRequests_world [OF rq] show ?thesis
    by (simp add: filter_empty_conv)
qed

text \<open>With a gateway that rejects every request the command fails, and the two records
  of id 1 are gone all the same.\<close>

theorem removeBreakPoint_removes_witness:
  "removeBreakPoint ex_gateway_down (Fin 1) ex_registry new_world =
     (Inl (GatewayFailure ''closed''),
      ex_registry\<lparr>breakPoints :=
        [\<lparr>bp_id = Fin 2, rawId = ''b'', bp_file = ''main.c'', bp_line = Fin 6\<rparr>]\<rparr>,
      new_world\<lparr>calls := [Debugger (D_removeBreakpoint ''a''), Debugger (D_removeBreakpoint ''c'')]\<rparr>) \<and>
   filter (\<lambda>x. js_eq (bp_id x) (Fin 1))
     (breakPoints (fst (snd (removeBreakPoint ex_gateway_down (Fin 1) ex_registry new_world)))) = [] \<and>
   calls (snd (snd (removeBreakPoint ex_gateway_down (Fin 1) ex_registry new_world))) =
     calls new_world @ [Debugger (D_removeBreakpoint ''a''), Debugger (D_removeBreakpoint ''c'')]"
proof -
  have run: "removeBreakPoint ex_gateway_down (Fin 1) ex_registry new_world =
     (Inl (GatewayFailure ''closed''),
      ex_registry\<lparr>breakPoints :=
        [\<lparr>bp_id = Fin 2, rawId = ''b'', bp_file = ''main.c'', bp_line = Fin 6\<rparr>]\<rparr>,
      new_world\<lparr>calls := [Debugger (D_removeBreakpoint ''a''), Debugger (D_removeBreakpoint ''c'')]\<rparr>)"
    by (simp add: removeBreakPoint_def ex_registry_breakPoints ex_gateway_down_remove
        request_def new_world_def)
  from removeBreakPoint_removes [OF run] run show ?thesis
    by (simp add: ex_registry_breakPoints)
qed

section \<open>Commands while running\<close>

text \<open>
  C4. While the session state is \<^verbatim>\<open>NormalSessionState\<close>, each of \<^verbatim>\<open>stepOver\<close>, \<^verbatim>\<open>stepIn\<close>,
  \<^verbatim>\<open>stepOut\<close>, \<^verbatim>\<open>continue\<close>, \<^verbatim>\<open>getStackFrames\<close>, \<^verbatim>\<open>setFocusedFrame\<close>, \<^verbatim>\<open>showLine\<close>,
  \<^verbatim>\<open>listVariable\<close> and \<^verbatim>\<open>dumpVariable\<close> ends without failure, returns its empty result (the
  empty list for \<^verbatim>\<open>getStackFrames\<close> and \<^verbatim>\<open>listVariable\<close>, \<^verbatim>\<open>undefined\<close> for \<^verbatim>\<open>dumpVariable\<close>),
  leaves the manager as it was, and changes the world only by the warning
  \<open>Debugger not paused!\<close> on the console: the list of gateway requests is the same.
\<close>

theorem running_mode_commands:
  assumes "sessionState m = NormalSessionState"
  shows "stepOver gw m w = (Inr (), m, console_warn not_paused w) \<and>
         stepIn gw m w = (Inr (), m, console_warn not_paused w) \<and>
         stepOut gw m w = (Inr (), m, console_warn not_paused w) \<and>
         continue gw m w = (Inr (), m, console_warn not_paused w) \<and>
         getStackFrames m w = (Inr [], m, console_warn not_paused w) \<and>
         setFocusedFrame index m w = (Inr (), m, console_warn not_paused w) \<and>
         showLine h m w = (Inr (), m, console_warn not_paused w) \<and>
         listVariable m w = (Inr [], m, console_warn not_paused w) \<and>
         dumpVariable h gw expr m w = (Inr None, m, console_warn not_paused w) \<and>
         calls (console_warn not_paused w) = calls w \<and>
         events (console_warn not_paused w) = events w \<and>
         console (console_warn not_paused w) = console w @ [Warn ''Debugger not paused!'']"
  using assms
  by (simp add: stepOver_def stepIn_def stepOut_def continue_def getStackFrames_def
      setFocusedFrame_def showLine_def listVariable_def dumpVariable_def
      normal_stepOver_def normal_stepOut_def normal_continue_def normal_getStackFrames_def
      normal_setFocusedFrame_def normal_showLine_def normal_listVariable_def
      normal_dumpVariable_def console_warn_def not_paused_def)

theorem running_mode_commands_witness:
  "sessionState new_manager = NormalSessionState \<and>
   stepIn ex_gateway_down new_manager new_world =
     (Inr (), new_manager, new_world\<lparr>console := [Warn ''Debugger not paused!'']\<rparr>) \<and>
   listVariable new_manager new_world =
     (Inr [], new_manager, new_world\<lparr>console := [Warn ''Debugger not paused!'']\<rparr>) \<and>
   dumpVariable ex_host ex_gateway_down ''x'' new_manager new_world =
     (Inr None, new_manager, new_world\<lparr>console := [Warn ''Debugger not paused!'']\<rparr>)"
  using running_mode_commands [of new_manager ex_gateway_down new_world "Fin 0" ex_host "''x''"]
  by (simp add: new_manager_def new_world_def console_warn_def not_paused_def)

section \<open>Stepping in\<close>

text \<open>
  C8. \<^verbatim>\<open>stepIn\<close> is \<^verbatim>\<open>stepOver\<close>: the two commands of the manager are the same function,
  and so are the two methods of either session state. On a paused session \<^verbatim>\<open>stepIn\<close>
  sends the gateway the one request \<^verbatim>\<open>stepOver\<close> (not \<^verbatim>\<open>stepInto\<close>) and returns its reply;
  on a running session it only warns.
\<close>

theorem stepIn_is_stepOver:
  "stepIn = stepOver \<and>
   state_stepIn gw s w = state_stepOver gw s w \<and>
   stepIn gw (m\<lparr>sessionState := PausedSessionState fs sel\<rparr>) w =
     (on_stepOver gw (calls w), m\<lparr>sessionState := PausedSessionState fs sel\<rparr>,
      request (Debugger D_stepOver) w) \<and>
   state_stepIn gw (PausedSessionState fs sel) w =
     (on_stepOver gw (calls w), request (Debugger D_stepOver) w) \<and>
   stepIn gw (m\<lparr>sessionState := NormalSessionState\<rparr>) w =
     (Inr (), m\<lparr>sessionState := NormalSessionState\<rparr>, console_warn not_paused w) \<and>
   state_stepIn gw NormalSessionState w = (Inr (), console_warn not_paused w) \<and>
   calls (request (Debugger D_stepOver) w) = calls w @ [Debugger D_stepOver]"
proof -
  have "stepIn = stepOver"
    by (intro ext) (simp add: stepIn_def stepOver_def)
  moreover have "state_stepIn gw s w = state_stepOver gw s w"
    by (cases s)
      (simp_all add: normal_stepIn_def normal_stepOver_def paused_stepIn_def paused_stepOver_def)
  moreover have "stepIn gw (m\<lparr>sessionState := PausedSessionState fs sel\<rparr>) w =
     (on_stepOver gw (calls w), m\<lparr>sessionState := PausedSessionState fs sel\<rparr>,
      request (Debugger D_stepOver) w)"
    by (simp add: stepIn_def paused_stepOver_def)
  moreover have "stepIn gw (m\<lparr>sessionState := NormalSessionState\<rparr>) w =
     (Inr (), m\<lparr>sessionState := NormalSessionState\<rparr>, console_warn not_paused w)"
    by (simp add: stepIn_def normal_stepOver_def)
  moreover have "state_stepIn gw (PausedSessionState fs sel) w =
     (on_stepOver gw (calls w), request (Debugger D_stepOver) w)"
    by (simp add: paused_stepIn_def)
  moreover have "state_stepIn gw NormalSessionState w = (Inr (), console_warn not_paused w)"
    by (simp add: normal_stepIn_def)
  moreover have "calls (request (Debugger D_stepOver) w) = calls w @ [Debugger D_stepOver]"
    by (simp add: request_def)
  ultimately show ?thesis
    by blast
qed

section \<open>Pausing\<close>

text \<open>
  C3, as amended. A pause notification with N call frames makes the session state a
  paused one with focused index 0 and N stack frames, the i-th built from the i-th call
  frame and carrying index i. The file of an entry is the file of the debug-info
  location when the first module with the frame's script id gives a location and that
  file is not the empty string, and the frame's url otherwise; its line is the line of
  that location when there is one and the line is neither 0 nor \<^verbatim>\<open>NaN\<close>, and the
  protocol line number of the frame otherwise.
\<close>

theorem onPaused_builds_stack:
  assumes "onPaused callFrames m w = (m', w')"
  shows "\<exists>fs. sessionState m' = PausedSessionState fs (Fin 0) \<and>
           length fs = length callFrames \<and>
           (\<forall>i < length callFrames.
              frame (fs ! i) = callFrames ! i \<and>
              sf_index (stack (fs ! i)) = i \<and>
              sf_file (stack (fs ! i)) =
                (case findFileFromLocation (sources m) (cf_location (callFrames ! i)) of
                   None \<Rightarrow> url (callFrames ! i)
                 | Some d \<Rightarrow> if dl_file d = [] then url (callFrames ! i) else dl_file d) \<and>
              sf_line (stack (fs ! i)) =
                (case findFileFromLocation (sources m) (cf_location (callFrames ! i)) of
                   None \<Rightarrow> lineNumber (cf_location (callFrames ! i))
                 | Some d \<Rightarrow> if dl_line d = Fin 0 \<or> dl_line d = NaN
                             then lineNumber (cf_location (callFrames ! i)) else dl_line d))"
proof -
  let ?fs = "map (\<lambda>(i, v). stackFrameOf (sources m) v i) (enumerate 0 callFrames)"
  have st: "sessionState m' = PausedSessionState ?fs (Fin 0)"
    using assms onPaused_state [of callFrames m w] by simp
  have nth: "?fs ! i = stackFrameOf (sources m) (callFrames ! i) i" if "i < length callFrames" for i
    using that by (simp add: nth_enumerate_eq)
  have truthy: "truthy_num n \<longleftrightarrow> \<not> (n = Fin 0 \<or> n = NaN)" for n
    by (cases n) simp_all
  have each: "frame (?fs ! i) = callFrames ! i \<and>
              sf_index (stack (?fs ! i)) = i \<and>
              sf_file (stack (?fs ! i)) =
                (case findFileFromLocation (sources m) (cf_location (callFrames ! i)) of
                   None \<Rightarrow> url (callFrames ! i)
                 | Some d \<Rightarrow> if dl_file d = [] then url (callFrames ! i) else dl_file d) \<and>
              sf_line (stack (?fs ! i)) =
                (case findFileFromLocation (sources m) (cf_location (callFrames ! i)) of
                   None \<Rightarrow> lineNumber (cf_location (callFrames ! i))
                 | Some d \<Rightarrow> if dl_line d = Fin 0 \<or> dl_line d = NaN
                             then lineNumber (cf_location (callFrames ! i)) else dl_line d)"
    if "i < length callFrames" for i
    unfolding nth [OF that]
    by (simp add: stackFrameOf_def Let_def or_str_def or_num_def truthy_str_def truthy
        split: option.splits)
  from st each show ?thesis
    by (intro exI [of _ ?fs]) simp
qed

theorem onPaused_builds_stack_witness:
  "onPaused [ex_inner, ex_outer] ex_loaded new_world =
     (ex_paused, snd (onPaused [ex_inner, ex_outer] ex_loaded new_world)) \<and>
   (\<exists>fs. sessionState ex_paused = PausedSessionState fs (Fin 0) \<and> length fs = 2 \<and>
      frame (fs ! 1) = ex_outer \<and> sf_index (stack (fs ! 1)) = 1 \<and>
      sf_file (stack (fs ! 1)) = ''main.c'' \<and> sf_line (stack (fs ! 1)) = Fin 5)"
proof -
  have run: "onPaused [ex_inner, ex_outer] ex_loaded new_world =
     (ex_paused, snd (onPaused [ex_inner, ex_outer] ex_loaded new_world))"
    by (simp add: ex_paused_def)
  have loc: "findFileFromLocation (sources ex_loaded) (cf_location ex_outer) =
     Some \<lparr>dl_file = ''main.c'', dl_line = Fin 5\<rparr>"
    by (simp add: findFileFromLocation_def ex_loaded_simps ex_module_scriptID ex_module_location
        ex_outer_def)
  from onPaused_builds_stack [OF run] obtain fs where
    fs: "sessionState ex_paused = PausedSessionState fs (Fin 0)" "length fs = 2"
    and each: "\<forall>i < 2.
              frame (fs ! i) = [ex_inner, ex_outer] ! i \<and>
              sf_index (stack (fs ! i)) = i \<and>
              sf_file (stack (fs ! i)) =
                (case findFileFromLocation (sources ex_loaded) (cf_location ([ex_inner, ex_outer] ! i)) of
                   None \<Rightarrow> url ([ex_inner, ex_outer] ! i)
                 | Some d \<Rightarrow> if dl_file d = [] then url ([ex_inner, ex_outer] ! i) else dl_file d) \<and>
              sf_line (stack (fs ! i)) =
                (case findFileFromLocation (sources ex_loaded) (cf_location ([ex_inner, ex_outer] ! i)) of
                   None \<Rightarrow> lineNumber (cf_location ([ex_inner, ex_outer] ! i))
                 | Some d \<Rightarrow> if dl_line d = Fin 0 \<or> dl_line d = NaN
                             then lineNumber (cf_location ([ex_inner, ex_outer] ! i)) else dl_line d)"
    by auto
  from each have "frame (fs ! 1) = ex_outer \<and> sf_index (stack (fs ! 1)) = 1 \<and>
      sf_file (stack (fs ! 1)) = ''main.c'' \<and> sf_line (stack (fs ! 1)) = Fin 5"
    by (simp add: loc)
  with fs run show ?thesis
    by blast
qed

text \<open>
  C3 as stated fails where the debug-info location has line 0: the inner frame is at
  address 32, which the module maps to line 0 of \<open>main.c\<close>, and its entry carries the
  line 3 of the protocol location, not the line of the mapping.
\<close>

theorem onPaused_line_counterexample:
  "findFileFromLocation (sources ex_loaded) (cf_location ex_inner) =
     Some \<lparr>dl_file = ''main.c'', dl_line = Fin 0\<rparr> \<and>
   lineNumber (cf_location ex_inner) = Fin 3 \<and>
   sessionState (fst (onPaused [ex_inner, ex_outer] ex_loaded new_world)) =
     PausedSessionState
       [\<lparr>frame = ex_inner,
         stack = \<lparr>sf_index = 0, sf_name = ''helper'', sf_instruction = Some (Fin 32),
                  sf_file = ''main.c'', sf_line = Fin 3\<rparr>,
         state = None\<rparr>,
        \<lparr>frame = ex_outer,
         stack = \<lparr>sf_index = 1, sf_name = ''main'', sf_instruction = Some (Fin 16),
                  sf_file = ''main.c'', sf_line = Fin 5\<rparr>,
         state = None\<rparr>]
       (Fin 0)"
  using ex_paused_state
  by (simp add: ex_paused_def findFileFromLocation_def ex_loaded_simps ex_module_scriptID
      ex_module_location ex_inner_def)

section \<open>Page navigation\<close>






text \<open>Once a module has been loaded again the paused state lists its variables again,
  which is why the statement above is about an empty module list.\<close>

lemma listVariable_after_script_loaded:
  "listVariable ((fst (onLoad ex_focused new_world))
       \<lparr>sources := loadedWebAssembly ex_module (sources (fst (onLoad ex_focused new_world)))\<rparr>)
     new_world =
     (Inr [\<lparr>var_name = ''x'', var_type = ''int''\<rparr>],
      (fst (onLoad ex_focused new_world))
        \<lparr>sources := loadedWebAssembly ex_module (sources (fst (onLoad ex_focused new_world)))\<rparr>,
      new_world)"
  by (simp add: listVariable_def paused_listVariable_def onLoad_def reset_def
      loadedWebAssembly_def ex_focused_state ex_module_variables)


section \<open>The module registry\<close>

lemma filter_distinct_key:
  "distinct (map f xs) \<Longrightarrow> x \<in> set xs \<Longrightarrow> filter (\<lambda>y. f y = f x) xs = [x]"
proof (induction xs)
  case Nil
  then show ?case by simp
next
  case (Cons y ys)
  from Cons.prems(1) have fresh: "f y \<notin> f ` set ys" and d: "distinct (map f ys)"
    by simp_all
  show ?case
  proof (cases "y = x")
    case True
    from fresh True have "\<forall>z \<in> set ys. f z \<noteq> f x"
      by (metis imageI)
    then have "filter (\<lambda>y. f y = f x) ys = []"
      by (simp add: filter_empty_conv)
    with True show ?thesis by simp
  next
    case False
    with Cons.prems(2) have mem: "x \<in> set ys" by simp
    with fresh have "f y \<noteq> f x"
      by (metis imageI)
    with Cons.IH [OF d mem] show ?thesis by simp
  qed
qed

lemma findFileFromLocation_member:
  assumes "distinct (map scriptID srcs)" and "x \<in> set srcs" and "scriptId loc = scriptID x"
  shows "findFileFromLocation srcs loc = wf_findFileFromLocation x loc"
  using filter_distinct_key [OF assms(1,2)] assms(3)
  by (simp add: findFileFromLocation_def)

lemma findAddressFromFileLocation_Some:
  "findAddressFromFileLocation srcs file line = Some a \<Longrightarrow>
     \<exists>x \<in> set srcs. wl_scriptId a = scriptID x \<and> wl_line a = Fin 0 \<and>
        wf_findAddressFromFileLocation x file line = Some (wl_column a)"
  by (induction srcs) (auto split: option.splits)

lemma findAddressFromFileLocation_exists:
  "x \<in> set srcs \<Longrightarrow> wf_findAddressFromFileLocation x file line = Some a0 \<Longrightarrow>
     \<exists>a. findAddressFromFileLocation srcs file line = Some a"
  by (induction srcs) (auto split: option.splits)

text \<open>
  C7, as amended. Let the registered modules have script ids that differ from one
  another, and let each module's location lookup undo its address lookup. Then for
  every registered module and every protocol location with that module's script id,
  \<^verbatim>\<open>findFileFromLocation\<close> of the session returns what the module's debug information
  returns, so exactly the file and line the module maps the address to. For every file
  and line for which a registered module has an address (as the module that maps an
  address to them has, its lookups undoing each other), \<^verbatim>\<open>findAddressFromFileLocation\<close>
  of the session returns an address, and \<^verbatim>\<open>findFileFromLocation\<close> at the address it
  returns gives that file and that line again. The last part of the statement puts the
  two together for a module that maps a location to a file and line it has an address
  for.
\<close>

theorem module_registry_round_trip:
  assumes "distinct (map scriptID srcs)"
    and "\<forall>x \<in> set srcs. \<forall>file line address.
           wf_findAddressFromFileLocation x file line = Some address \<longrightarrow>
           wf_findFileFromLocation x
             \<lparr>scriptId = scriptID x, lineNumber = Fin 0, columnNumber = Some address\<rparr> =
             Some \<lparr>dl_file = file, dl_line = line\<rparr>"
  shows "(\<forall>x \<in> set srcs. \<forall>loc :: Location.
            scriptId loc = scriptID x \<longrightarrow>
            findFileFromLocation srcs loc = wf_findFileFromLocation x loc) \<and>
         (\<forall>file line a.
            findAddressFromFileLocation srcs file line = Some a \<longrightarrow>
            findFileFromLocation srcs (protocolLocation a) = Some \<lparr>dl_file = file, dl_line = line\<rparr>) \<and>
         (\<forall>x \<in> set srcs. \<forall>file line address.
            wf_findAddressFromFileLocation x file line = Some address \<longrightarrow>
            (\<exists>a. findAddressFromFileLocation srcs file line = Some a \<and>
                 findFileFromLocation srcs (protocolLocation a) =
                   Some \<lparr>dl_file = file, dl_line = line\<rparr>)) \<and>
         (\<forall>x \<in> set srcs. \<forall>(loc :: Location) (d :: DwarfLocation) address.
            scriptId loc = scriptID x \<and> wf_findFileFromLocation x loc = Some d \<and>
            wf_findAddressFromFileLocation x (dl_file d) (dl_line d) = Some address \<longrightarrow>
            findFileFromLocation srcs loc = Some d \<and>
            (\<exists>a. findAddressFromFileLocation srcs (dl_file d) (dl_line d) = Some a \<and>
                 findFileFromLocation srcs (protocolLocation a) = Some d))"
proof -
  have round: "findFileFromLocation srcs (protocolLocation a) = Some \<lparr>dl_file = f, dl_line = l\<rparr>"
    if "findAddressFromFileLocation srcs f l = Some a" for f l a
  proof -
    from that obtain x where x: "x \<in> set srcs" "wl_scriptId a = scriptID x" "wl_line a = Fin 0"
      "wf_findAddressFromFileLocation x f l = Some (wl_column a)"
      using findAddressFromFileLocation_Some by blast
    have pl: "protocolLocation a =
      \<lparr>scriptId = scriptID x, lineNumber = Fin 0, columnNumber = Some (wl_column a)\<rparr>"
      using x(2,3) by (simp add: protocolLocation_def)
    have "findFileFromLocation srcs (protocolLocation a) =
          wf_findFileFromLocation x (protocolLocation a)"
      using assms(1) x(1) by (rule findFileFromLocation_member) (simp add: pl)
    moreover have "wf_findFileFromLocation x (protocolLocation a) =
      Some \<lparr>dl_file = f, dl_line = l\<rparr>"
      unfolding pl using assms(2) x(1,4) by blast
    ultimately show ?thesis
      by simp
  qed
  have forth: "findFileFromLocation srcs loc = wf_findFileFromLocation x loc"
    if "x \<in> set srcs" "scriptId loc = scriptID x" for x and loc :: Location
    using assms(1) that by (rule findFileFromLocation_member)
  have found: "\<exists>a. findAddressFromFileLocation srcs f l = Some a \<and>
                 findFileFromLocation srcs (protocolLocation a) = Some \<lparr>dl_file = f, dl_line = l\<rparr>"
    if "x \<in> set srcs" "wf_findAddressFromFileLocation x f l = Some a0" for x f l a0
  proof -
    from that obtain a where "findAddressFromFileLocation srcs f l = Some a"
      using findAddressFromFileLocation_exists by blast
    with round show ?thesis
      by blast
  qed
  have claimed: "findFileFromLocation srcs loc = Some d \<and>
            (\<exists>a. findAddressFromFileLocation srcs (dl_file d) (dl_line d) = Some a \<and>
                 findFileFromLocation srcs (protocolLocation a) = Some d)"
    if "x \<in> set srcs" "scriptId loc = scriptID x" "wf_findFileFromLocation x loc = Some d"
      "wf_findAddressFromFileLocation x (dl_file d) (dl_line d) = Some a0"
    for x a0 and loc :: Location and d :: DwarfLocation
  proof -
    have d: "\<lparr>dl_file = dl_file d, dl_line = dl_line d\<rparr> = d"
      by simp
    from forth [OF that(1,2)] that(3) have "findFileFromLocation srcs loc = Some d"
      by simp
    with found [OF that(1,4)] d show ?thesis
      by simp
  qed
  from forth round found claimed show ?thesis
    by blast
qed

text \<open>Two modules, of script ids 8 and 7.\<close>

theorem module_registry_round_trip_witness:
  "distinct (map scriptID [ex_blank\<lparr>scriptID := ''8''\<rparr>, ex_module]) \<and>
   findFileFromLocation [ex_blank\<lparr>scriptID := ''8''\<rparr>, ex_module]
     \<lparr>scriptId = ''7'', lineNumber = Fin 0, columnNumber = Some (Fin 16)\<rparr> =
     Some \<lparr>dl_file = ''main.c'', dl_line = Fin 5\<rparr> \<and>
   findAddressFromFileLocation [ex_blank\<lparr>scriptID := ''8''\<rparr>, ex_module] ''main.c'' (Fin 5) =
     Some \<lparr>wl_scriptId = ''7'', wl_line = Fin 0, wl_column = Fin 16\<rparr> \<and>
   findFileFromLocation [ex_blank\<lparr>scriptID := ''8''\<rparr>, ex_module]
     (protocolLocation \<lparr>wl_scriptId = ''7'', wl_line = Fin 0, wl_column = Fin 16\<rparr>) =
     Some \<lparr>dl_file = ''main.c'', dl_line = Fin 5\<rparr>"
proof -
  let ?srcs = "[ex_blank\<lparr>scriptID := ''8''\<rparr>, ex_module]"
  have d: "distinct (map scriptID ?srcs)"
    by (simp add: ex_module_scriptID)
  have inv: "\<forall>x \<in> set ?srcs. \<forall>file line address.
           wf_findAddressFromFileLocation x file line = Some address \<longrightarrow>
           wf_findFileFromLocation x
             \<lparr>scriptId = scriptID x, lineNumber = Fin 0, columnNumber = Some address\<rparr> =
             Some \<lparr>dl_file = file, dl_line = line\<rparr>"
    by (auto simp add: ex_module_address ex_module_location ex_blank_def split: if_splits)
  have a: "findAddressFromFileLocation ?srcs ''main.c'' (Fin 5) =
     Some \<lparr>wl_scriptId = ''7'', wl_line = Fin 0, wl_column = Fin 16\<rparr>"
    by (simp add: ex_module_address ex_module_scriptID ex_blank_def)
  have l: "wf_findFileFromLocation ex_module
      \<lparr>scriptId = ''7'', lineNumber = Fin 0, columnNumber = Some (Fin 16)\<rparr> =
      Some \<lparr>dl_file = ''main.c'', dl_line = Fin 5\<rparr>"
    by (simp add: ex_module_location)
  from module_registry_round_trip [OF d inv] d a l show ?thesis
    by (simp add: ex_module_scriptID)
qed

text \<open>
  C7 as stated fails when a module registered earlier carries the same script id. In
  the registry below the module without debug information comes first; both modules'
  lookups undo each other. The second module maps address 16 to \<open>main.c:5\<close> and back, yet
  the session finds no location for address 16 of script 7, nor for the address it
  returns itself for \<open>main.c:5\<close>.
\<close>

theorem module_registry_shadowed_counterexample:
  "ex_module \<in> set ex_shadowed \<and>
   wf_findAddressFromFileLocation ex_module ''main.c'' (Fin 5) = Some (Fin 16) \<and>
   wf_findFileFromLocation ex_module
     \<lparr>scriptId = ''7'', lineNumber = Fin 0, columnNumber = Some (Fin 16)\<rparr> =
     Some \<lparr>dl_file = ''main.c'', dl_line = Fin 5\<rparr> \<and>
   findFileFromLocation ex_shadowed
     \<lparr>scriptId = ''7'', lineNumber = Fin 0, columnNumber = Some (Fin 16)\<rparr> = None \<and>
   findAddressFromFileLocation ex_shadowed ''main.c'' (Fin 5) =
     Some \<lparr>wl_scriptId = ''7'', wl_line = Fin 0, wl_column = Fin 16\<rparr> \<and>
   findFileFromLocation ex_shadowed
     (protocolLocation \<lparr>wl_scriptId = ''7'', wl_line = Fin 0, wl_column = Fin 16\<rparr>) = None"
  by (simp add: ex_shadowed_def loadedWebAssembly_def findFileFromLocation_def
      protocolLocation_def ex_module_address ex_module_location ex_module_scriptID ex_blank_def)

section \<open>Reading the memory behind a variable\<close>

lemma set_state_frame0:
  "js_index fs sel = Some fr \<Longrightarrow>
     js_index (set_state fs sel st) (Fin 0) =
       Some ((fs ! 0)\<lparr>state := (if sel = Fin 0 then Some st else state (fs ! 0))\<rparr>)"
  by (cases sel) (auto simp add: nth_list_update split: if_splits)

text \<open>
  C9. On a paused session with stack frames \<open>fs\<close> and any focused index \<open>sel\<close> that is
  one of the stack: once the focused frame has its value store (kept from before, or
  built now, the world then being \<open>w1\<close>) and a module resolves the expression to a
  variable, \<^verbatim>\<open>dumpVariable\<close> sends exactly one more request, \<^verbatim>\<open>evaluateOnCallFrame\<close> for the
  variable's slice of memory, and its call frame id is the one of frame 0 of the stack,
  not the one of the focused frame.
\<close>

theorem dumpVariable_reads_frame_0:
  assumes "sessionState m = PausedSessionState fs sel"
    and "js_index fs sel = Some fr"
    and "frameState h gw fr w = (Inr st, w1)"
    and "getVariableValue (sources m) expr (sf_instruction (stack fr)) st = Some v"
    and "dumpVariable h gw expr m w = (r, m', w')"
  shows "calls w' = calls w1 @
           [Debugger (D_evaluateOnCallFrame (callFrameId (frame (fs ! 0)))
              (memory_expression (wv_address v) (wv_byte_size v)))]"
proof -
  have f0: "js_index (set_state fs sel st) (Fin 0) =
       Some ((fs ! 0)\<lparr>state := (if sel = Fin 0 then Some st else state (fs ! 0))\<rparr>)"
    using assms(2) by (rule set_state_frame0)
  obtain r2 w2 where
    ev: "evaluateMemory gw (set_state fs sel st) (wv_address v) (wv_byte_size v) w1 = (r2, w2)"
    by (cases "evaluateMemory gw (set_state fs sel st) (wv_address v) (wv_byte_size v) w1")
  then have w2: "w2 = request (Debugger (D_evaluateOnCallFrame (callFrameId (frame (fs ! 0)))
              (memory_expression (wv_address v) (wv_byte_size v)))) w1"
    by (auto simp add: evaluateMemory_def f0 Let_def simp del: js_index.simps
        split: sum.splits option.splits)
  from assms ev have "w' = w2"
    by (cases r2) (auto simp add: dumpVariable_def paused_dumpVariable_def Let_def)
  with w2 show ?thesis
    by (simp add: request_def)
qed

text \<open>The outer frame, of call frame id \<open>frame-1\<close>, is focused; the memory is read on
  \<open>frame-0\<close>.\<close>

theorem dumpVariable_reads_frame_0_witness:
  "sessionState ex_focused =
     PausedSessionState
       [\<lparr>frame = ex_inner,
         stack = \<lparr>sf_index = 0, sf_name = ''helper'', sf_instruction = Some (Fin 32),
                  sf_file = ''main.c'', sf_line = Fin 3\<rparr>,
         state = None\<rparr>,
        \<lparr>frame = ex_outer,
         stack = \<lparr>sf_index = 1, sf_name = ''main'', sf_instruction = Some (Fin 16),
                  sf_file = ''main.c'', sf_line = Fin 5\<rparr>,
         state = None\<rparr>]
       (Fin 1) \<and>
   callFrameId ex_inner = ''frame-0'' \<and> callFrameId ex_outer = ''frame-1'' \<and>
   fst (dumpVariable ex_host ex_gateway ''x'' ex_focused new_world) = Inr (Some ''42'') \<and>
   calls (snd (snd (dumpVariable ex_host ex_gateway ''x'' ex_focused new_world))) =
     [Runtime (R_getProperties (Some ''s0'')), Runtime (R_getProperties (Some ''object'')),
      Runtime (R_getProperties (Some ''s1'')), Runtime (R_getProperties (Some ''s2'')),
      Runtime (R_getProperties (Some ''object'')),
      Debugger (D_evaluateOnCallFrame ''frame-0''
        ''new Uint8Array(memories[0].buffer).subarray(1024, 1028)'')]"
proof -
  let ?inner = "\<lparr>frame = ex_inner,
         stack = \<lparr>sf_index = 0, sf_name = ''helper'', sf_instruction = Some (Fin 32),
                  sf_file = ''main.c'', sf_line = Fin 3\<rparr>,
         state = None\<rparr>"
  let ?outer = "\<lparr>frame = ex_outer,
         stack = \<lparr>sf_index = 1, sf_name = ''main'', sf_instruction = Some (Fin 16),
                  sf_file = ''main.c'', sf_line = Fin 5\<rparr>,
         state = None\<rparr>"
  let ?st = "\<lparr>stacks = [], locals = [], globals = []\<rparr>"
  let ?w1 = "new_world\<lparr>calls :=
        [Runtime (R_getProperties (Some ''s0'')), Runtime (R_getProperties (Some ''object'')),
         Runtime (R_getProperties (Some ''s1'')), Runtime (R_getProperties (Some ''s2'')),
         Runtime (R_getProperties (Some ''object''))]\<rparr>"
  have h1: "sessionState ex_focused = PausedSessionState [?inner, ?outer] (Fin 1)"
    by (rule ex_focused_state)
  have h2: "js_index [?inner, ?outer] (Fin 1) = Some ?outer"
    by simp
  have h3: "frameState ex_host ex_gateway ?outer new_world = (Inr ?st, ?w1)"
    by (simp add: frameState_def ex_store)
  have h4: "getVariableValue (sources ex_focused) ''x'' (sf_instruction (stack ?outer)) ?st = Some ex_x"
    by (simp add: ex_focused_state ex_module_variables)
  obtain r m' w' where run: "dumpVariable ex_host ex_gateway ''x'' ex_focused new_world = (r, m', w')"
    by (cases "dumpVariable ex_host ex_gateway ''x'' ex_focused new_world")
  have res: "fst (dumpVariable ex_host ex_gateway ''x'' ex_focused new_world) = Inr (Some ''42'')"
    using h3 h4
    by (simp add: dumpVariable_def h1 paused_dumpVariable_def evaluateMemory_def Let_def
        ex_gateway_evaluate ex_x_def ex_print)
  from dumpVariable_reads_frame_0 [OF h1 h2 h3 h4 run] run res show ?thesis
    by (simp add: h1 ex_frames ex_x_def ex_expression new_world_def)
qed

end
